theory Spec2Isabelle
  imports Main "HOL-Library.Sublist"
begin

section \<open>Managed storage account keys sample: the data model\<close>

text \<open>
  The repository holds the same sample twice, once against each generation of the vendor
  SDK.  \<open>Track1\<close> is the older pair of files (the utility module that requires
  \<^verbatim>\<open>ms-rest-azure\<close> and the sample that requires \<^verbatim>\<open>azure-keyvault\<close>); \<open>Track2\<close> is the
  newer pair (\<^verbatim>\<open>sample_util.js\<close> with \<^verbatim>\<open>@azure/identity\<close> and the sample that requires
  \<^verbatim>\<open>@azure/arm-storage\<close>).  Every definition below takes the variant as its first argument
  and follows the file of that variant.
\<close>

datatype variant = Track1 | Track2

text \<open>A thrown JavaScript value: the error's \<^verbatim>\<open>name\<close>, its \<^verbatim>\<open>code\<close> property
  (absent on plain errors) and its \<^verbatim>\<open>message\<close>.\<close>

datatype error = JsError (err_name: string) (err_code: "string option") (err_message: string)

record permissions =
  keys :: "string list"
  secrets :: "string list"
  storage :: "string list"
  certificates :: "string list option"

record access_policy_entry =
  ape_tenantId :: string
  ape_objectId :: string
  ape_permissions :: permissions

record vault_properties =
  vaultUri :: string
  accessPolicies :: "access_policy_entry list"

record vault =
  vault_name :: string
  properties :: vault_properties

datatype sku = Sku (family: "string option") (sku_name: string)

record kv_params =
  kv_location :: string
  kv_sku :: sku
  kv_accessPolicies :: "access_policy_entry list"
  enabledForDeployment :: bool
  kv_tenantId :: string
  enableSoftDelete :: "bool option"
  enablePurgeProtection :: "bool option"

text \<open>\<^verbatim>\<open>vaults.createOrUpdate\<close> is called with the creation parameters when the vault is
  made and with the whole in-memory vault object when its access policies are pushed.\<close>

datatype vault_payload = Params kv_params | Whole vault

record storage_account =
  sa_name :: string
  sa_id :: string
  sa_identity :: "string option"  \<comment> \<open>\<^verbatim>\<open>identity.principalId\<close>, when the account has an identity\<close>

datatype create_params =
  CreateParams (cp_location: string) (cp_sku: string) (cp_kind: string) (cp_identity: "string option")

datatype role_definition = RoleDefinition (role_id: string)

datatype role_assignment_params =
  RoleAssignmentParams (roleDefinitionId: string) (principalId: string)

datatype user_creds = UserCreds (username: string) (tokenAudience: string)

datatype token_response = TokenResponse (oid: string) (token_resource: string) (token_userId: string)

datatype account_update_kv =
  ActiveKeyName string | AutoRegenerateKey bool

datatype key_vault_properties = KeyVaultProperties (keyName: string) (keyVaultUri: string)

datatype encryption =
  Encryption (keySource: string) (keyVaultProperties: "key_vault_properties option")
    (blob_service: "(bool \<times> string) option")

datatype account_sas_policy =
  AccountSasPolicy (Services: string) (ResourceTypes: string) (Permissions: string) (Expiry: string)

datatype list_sas_policy =
  ListSasPolicy (keyToSign: string) (sharedAccessStartTime: string)
    (sharedAccessExpiryTime: string) (protocols: string) (services: string)
    (resourceTypes: string) (sas_permissions: string)

datatype secret_identifier = SecretIdentifier (si_vault: string) (si_name: string)

text \<open>
  The remote operations the two samples await, one constructor per SDK method, with the
  arguments the source passes.  The long-running forms of the newer SDK
  (\<^verbatim>\<open>beginCreateOrUpdateAndWait\<close>, \<^verbatim>\<open>beginCreateAndWait\<close>) are the operations
  \<open>VaultsCreateOrUpdate\<close> and \<open>StorageAccountsCreate\<close>.  The credentials a client was
  built with are not part of the call.
\<close>

datatype call =
    LoginWithServicePrincipalSecret string string string
  | InteractiveLogin string string
  | AcquireToken string string string
  | CredsGetToken user_creds
  | VaultsGet string string
  | ResourceGroupsCreateOrUpdate string string
  | VaultsCreateOrUpdate string string vault_payload
  | StorageAccountsCreate string string create_params
  | RoleDefinitionsList string string
  | RoleAssignmentsCreate string string role_assignment_params
  | KvSetStorageAccount string string string string bool string bool
  | KvUpdateStorageAccount string string account_update_kv
  | KvRegenerateStorageAccountKey string string string
  | KvGetStorageAccounts string
  | KvSetSasDefinition string string string string string string bool
  | KvGetSecret string string string
  | KvGetSasDefinitions string string
  | KvDeleteStorageAccount string string
  | BlobCreateContainerIfNotExists string string string
  | BlobCreateBlockBlobFromText string string string string string
  | KeysCreateKey string string string
  | StorageAccountsUpdate string string encryption
  | StorageAccountsRegenerateKey string string string
  | StorageAccountsListAccountSAS string string list_sas_policy
  | ContainerCreate string string
  | BlockBlobUpload string string string string nat

text \<open>What a run leaves behind, in order: each awaited remote call with the error it
  was rejected with (if any), and each line written with \<^verbatim>\<open>console.log\<close> (\<open>LogError\<close> when the value logged is an
  error object).\<close>

datatype event = Called call "error option" | Log string | LogError error

text \<open>
  Everything outside the repository is a parameter.  \<open>failure\<close> decides, from the number
  of events so far and the call, whether the call is rejected; the \<open>_result\<close> fields give
  the value a successful call at that position resolves with.  \<open>random_id\<close> stands for
  the module \<^verbatim>\<open>./random_id\<close> and \<open>uuidv4\<close> for \<^verbatim>\<open>uuid/v4\<close>, both indexed by the number
  of identifiers drawn so far.  The remaining fields are constants and pure helper
  functions of the vendor libraries.
\<close>

record world =
  failure :: "nat \<Rightarrow> call \<Rightarrow> error option"
  random_id :: "nat \<Rightarrow> string"
  uuidv4 :: "nat \<Rightarrow> string"
  vault_result :: "nat \<Rightarrow> vault"
  account_result :: "nat \<Rightarrow> storage_account"
  roles_result :: "nat \<Rightarrow> role_definition list"
  creds_result :: "nat \<Rightarrow> user_creds"
  token_result :: "nat \<Rightarrow> token_response"
  sasdef_result :: "nat \<Rightarrow> string"
  secret_result :: "nat \<Rightarrow> string"
  listing_result :: "nat \<Rightarrow> string list"
  sas_result :: "nat \<Rightarrow> string"
  DEFAULT_ADAL_CLIENT_ID :: string
  CLOUD_BLOB_HOST :: string
  generateAccountSharedAccessSignature :: "string \<Rightarrow> string \<Rightarrow> account_sas_policy \<Rightarrow> string"
  generateSharedAccessSignature :: "string \<Rightarrow> string \<Rightarrow> string \<Rightarrow> string"
  getUrl :: "string \<Rightarrow> string \<Rightarrow> string \<Rightarrow> string"
  parseSecretIdentifier :: "string \<Rightarrow> error + secret_identifier"

text \<open>The \<^verbatim>\<open>config\<close> object of the utility module: the fields set when the module is
  loaded.  Its two fields assigned later, \<^verbatim>\<open>config.vault\<close> and \<^verbatim>\<open>config._userId\<close>,
  are part of the mutable state.\<close>

record config =
  subscriptionId :: string
  tenantId :: string
  clientId :: string
  objectId :: string
  secret :: string
  azureLocation :: string
  groupName :: string
  storageAccName :: string
  vaultName :: "string option"

text \<open>
  The mutable state of a process.  Vault objects live in \<open>heap\<close> and are referred to by
  address, since the sample mutates the object that \<^verbatim>\<open>config.vault\<close> also points to.
\<close>

record state =
  trace :: "event list"
  drawn :: nat
  config_vault :: "nat option"
  config_userId :: "string option"
  heap :: "nat \<Rightarrow> vault"
  next_ref :: nat

type_synonym 'a prog = "state \<Rightarrow> (error + 'a) \<times> state"

definition ret :: "'a \<Rightarrow> 'a prog" where
  "ret x = (\<lambda>s. (Inr x, s))"

definition throw :: "error \<Rightarrow> 'a prog" where
  "throw e = (\<lambda>s. (Inl e, s))"

definition bnd :: "'a prog \<Rightarrow> ('a \<Rightarrow> 'b prog) \<Rightarrow> 'b prog" where
  "bnd m k = (\<lambda>s. case m s of (Inl e, s') \<Rightarrow> (Inl e, s') | (Inr x, s') \<Rightarrow> k x s')"

definition try_catch :: "'a prog \<Rightarrow> (error \<Rightarrow> 'a prog) \<Rightarrow> 'a prog" where
  "try_catch m h = (\<lambda>s. case m s of (Inl e, s') \<Rightarrow> h e s' | (Inr x, s') \<Rightarrow> (Inr x, s'))"

definition console_log :: "string \<Rightarrow> unit prog" where
  "console_log line = (\<lambda>s. (Inr (), s\<lparr>trace := trace s @ [Log line]\<rparr>))"

text \<open>An awaited SDK call: the event is recorded, and the call either rejects with the
  error the world gives or resolves; the position returned selects the resolved value.\<close>

definition remote :: "world \<Rightarrow> call \<Rightarrow> nat prog" where
  "remote w c = (\<lambda>s.
     let n = length (trace s) in
     case failure w n c of
       Some e \<Rightarrow> (Inl e, s\<lparr>trace := trace s @ [Called c (Some e)]\<rparr>)
     | None \<Rightarrow> (Inr n, s\<lparr>trace := trace s @ [Called c None]\<rparr>))"

definition draw_random_id :: "world \<Rightarrow> string prog" where
  "draw_random_id w = (\<lambda>s. (Inr (random_id w (drawn s)), s\<lparr>drawn := Suc (drawn s)\<rparr>))"

definition draw_uuidv4 :: "world \<Rightarrow> string prog" where
  "draw_uuidv4 w = (\<lambda>s. (Inr (uuidv4 w (drawn s)), s\<lparr>drawn := Suc (drawn s)\<rparr>))"

section \<open>The utility module\<close>

subsection \<open>Validation of the environment\<close>

type_synonym env = "string \<Rightarrow> string option"

text \<open>JavaScript truthiness of a string-or-undefined: \<^verbatim>\<open>undefined\<close> and the empty
  string are falsy.\<close>

definition truthy :: "string option \<Rightarrow> bool" where
  "truthy x = (case x of None \<Rightarrow> False | Some v \<Rightarrow> v \<noteq> [])"

definition or_default :: "string option \<Rightarrow> string \<Rightarrow> string" where
  "or_default x d = (case x of None \<Rightarrow> d | Some v \<Rightarrow> if v \<noteq> [] then v else d)"

definition missing_envs :: "env \<Rightarrow> string list" where
  "missing_envs env =
     (if \<not> truthy (env ''AZURE_SUBSCRIPTION_ID'') then [''AZURE_SUBSCRIPTION_ID''] else []) @
     (if \<not> truthy (env ''AZURE_TENANT_ID'') then [''AZURE_TENANT_ID''] else []) @
     (if \<not> truthy (env ''AZURE_CLIENT_ID'') then [''AZURE_CLIENT_ID''] else []) @
     (if \<not> truthy (env ''AZURE_CLIENT_OID'') then [''AZURE_CLIENT_OID''] else []) @
     (if \<not> truthy (env ''AZURE_CLIENT_SECRET'') then [''AZURE_CLIENT_SECRET''] else [])"

text \<open>\<^verbatim>\<open>Array.prototype.toString\<close>: the elements joined by commas.\<close>

fun array_toString :: "string list \<Rightarrow> string" where
  "array_toString [] = []"
| "array_toString [x] = x"
| "array_toString (x # y # ys) = x @ '','' @ array_toString (y # ys)"

text \<open>\<^verbatim>\<open>util.format\<close> with one argument: the first \<^verbatim>\<open>%s\<close> is replaced by the argument;
  without a placeholder the argument is appended after a space.\<close>

fun util_format :: "string \<Rightarrow> string \<Rightarrow> string" where
  "util_format [] arg = CHR '' '' # arg"
| "util_format [c] arg = c # CHR '' '' # arg"
| "util_format (c # d # rest) arg =
     (if c = CHR ''%'' \<and> d = CHR ''s'' then arg @ rest else c # util_format (d # rest) arg)"

text \<open>The names each utility module binds with \<^verbatim>\<open>require\<close>.  The older module never
  requires \<^verbatim>\<open>util\<close>.\<close>

definition module_requires :: "variant \<Rightarrow> string list" where
  "module_requires v =
     (case v of
        Track1 \<Rightarrow> [''msRestAzure'', ''azureConstants'', ''AzureEnvironment'', ''KeyVault'',
                   ''KeyVaultManagementClient'', ''ResourceManagementClient'', ''random_id'',
                   ''adal'', ''request'']
      | Track2 \<Rightarrow> [''util'', ''KeyVaultManagementClient'', ''ResourceManagementClient'',
                   ''random_id'', ''adal'', ''ClientSecretCredential''])"

text \<open>The check at the top of the module.  Evaluating \<^verbatim>\<open>util.format(...)\<close> needs the
  identifier \<^verbatim>\<open>util\<close>; where the module has not bound it, the evaluation throws a
  \<^verbatim>\<open>ReferenceError\<close> before the intended error is built.\<close>

definition validate_env :: "variant \<Rightarrow> env \<Rightarrow> error + unit" where
  "validate_env v env =
     (let envs = missing_envs env in
      if length envs > 0 then
        (if ''util'' \<in> set (module_requires v)
         then Inl (JsError ''Error'' None
                (util_format ''please set/export the following environment variables: %s''
                   (array_toString envs)))
         else Inl (JsError ''ReferenceError'' None ''util is not defined''))
      else Inr ())"

definition load_config :: "variant \<Rightarrow> env \<Rightarrow> world \<Rightarrow> config prog" where
  "load_config v env w =
     bnd (\<lambda>s. (validate_env v env, s)) (\<lambda>_.
     bnd (draw_random_id w) (\<lambda>rid.
     ret \<lparr> subscriptionId = the (env ''AZURE_SUBSCRIPTION_ID''),
           tenantId = the (env ''AZURE_TENANT_ID''),
           clientId = the (env ''AZURE_CLIENT_ID''),
           objectId = the (env ''AZURE_CLIENT_OID''),
           secret = the (env ''AZURE_CLIENT_SECRET''),
           azureLocation = or_default (env ''AZURE_LOCATION'') ''westus'',
           groupName = or_default (env ''AZURE_RESOURCE_GROUP'') ''azure-sample-group'',
           storageAccName = ''sa'' @ rid,
           vaultName = (if truthy (env ''AZURE_SAMPLE_VAULT_NAME'')
                        then env ''AZURE_SAMPLE_VAULT_NAME'' else None) \<rparr>))"

subsection \<open>Credentials and the sample vault\<close>

text \<open>The older module logs the service principal in (a remote call); the newer one only
  constructs a credential object.\<close>

definition getManagementCredentials :: "variant \<Rightarrow> config \<Rightarrow> world \<Rightarrow> unit prog" where
  "getManagementCredentials v cfg w =
     (case v of
        Track1 \<Rightarrow>
          bnd (remote w (LoginWithServicePrincipalSecret (clientId cfg) (secret cfg) (tenantId cfg)))
            (\<lambda>_. ret ())
      | Track2 \<Rightarrow> ret ())"

definition kvParams :: "variant \<Rightarrow> config \<Rightarrow> kv_params" where
  "kvParams v cfg =
     (case v of
        Track1 \<Rightarrow>
          \<lparr> kv_location = azureLocation cfg,
            kv_sku = Sku None ''standard'',
            kv_accessPolicies =
              [\<lparr> ape_tenantId = tenantId cfg, ape_objectId = objectId cfg,
                 ape_permissions =
                   \<lparr> keys = [''all''], secrets = [''all''], storage = [''all''],
                     certificates = Some [''all''] \<rparr> \<rparr>],
            enabledForDeployment = False,
            kv_tenantId = tenantId cfg,
            enableSoftDelete = None,
            enablePurgeProtection = None \<rparr>
      | Track2 \<Rightarrow>
          \<lparr> kv_location = azureLocation cfg,
            kv_sku = Sku (Some ''A'') ''standard'',
            kv_accessPolicies =
              [\<lparr> ape_tenantId = tenantId cfg, ape_objectId = objectId cfg,
                 ape_permissions =
                   \<lparr> keys = [''all''],
                     secrets = [''get'', ''list'', ''set'', ''delete'', ''backup'', ''restore'',
                                ''recover'', ''purge''],
                     storage = [''get'', ''list'', ''delete'', ''set'', ''update'',
                                ''regeneratekey'', ''recover'', ''purge'', ''backup'', ''restore'',
                                ''setsas'', ''listsas'', ''getsas'', ''deletesas''],
                     certificates = None \<rparr> \<rparr>],
            enabledForDeployment = False,
            kv_tenantId = tenantId cfg,
            enableSoftDelete = Some True,
            enablePurgeProtection = Some True \<rparr>)"

text \<open>\<^verbatim>\<open>config.vault = <the resolved vault>; return config.vault\<close>: the object is placed
  at a new address, which \<^verbatim>\<open>config.vault\<close> and the caller then share.\<close>

definition store_vault :: "vault \<Rightarrow> nat prog" where
  "store_vault x = (\<lambda>s.
     let r = next_ref s in
     (Inr r, s\<lparr>heap := (heap s)(r := x), next_ref := Suc r, config_vault := Some r\<rparr>))"

definition getSampleVault :: "variant \<Rightarrow> config \<Rightarrow> world \<Rightarrow> nat prog" where
  "getSampleVault v cfg w = (\<lambda>s.
     case config_vault s of
       Some r \<Rightarrow> (Inr r, s)
     | None \<Rightarrow>
        bnd (getManagementCredentials v cfg w) (\<lambda>credentials.
          if truthy (vaultName cfg)
          then bnd (remote w (VaultsGet (groupName cfg) (the (vaultName cfg)))) (\<lambda>n.
               store_vault (vault_result w n))
          else bnd (remote w (ResourceGroupsCreateOrUpdate (groupName cfg) (azureLocation cfg))) (\<lambda>_.
               bnd (draw_random_id w) (\<lambda>kvName.
               bnd (console_log (''Creating sample key vault: '' @ kvName)) (\<lambda>_.
               bnd (remote w (VaultsCreateOrUpdate (groupName cfg) kvName (Params (kvParams v cfg)))) (\<lambda>n.
               store_vault (vault_result w n)))))) s)"

text \<open>
  \<^verbatim>\<open>_getUserCredentials\<close> of the older module.  With a user id remembered from an earlier
  interactive login it first asks the token cache; a failure there is logged and the
  function falls through to the interactive login.

  The sample calls this function once, as the first statement of \<^verbatim>\<open>addStorageAccount\<close>.
  The two Key Vault clients of the older module (\<^verbatim>\<open>_getKeyVaultUserClient\<close>,
  \<^verbatim>\<open>_getKeyVaultClient\<close>) are objects constructed around an authentication callback; the
  vendor client invokes the callback while it performs a call, so whatever the callback does
  happens inside that call's event, whose outcome the world decides.
\<close>

definition getUserCredentials ::
  "config \<Rightarrow> world \<Rightarrow> string option \<Rightarrow> string option \<Rightarrow> user_creds prog" where
  "getUserCredentials cfg w resource0 clientId0 = (\<lambda>s.
     let resource = or_default resource0 ''https://management.core.windows.net/'';
         interactive =
           bnd (remote w (InteractiveLogin resource (tenantId cfg))) (\<lambda>n.
           bnd (\<lambda>s1. (Inr (), s1\<lparr>config_userId := Some (username (creds_result w n))\<rparr>)) (\<lambda>_.
           ret (creds_result w n)))
     in if truthy (config_userId s)
        then (case remote w (AcquireToken resource (the (config_userId s)) (DEFAULT_ADAL_CLIENT_ID w)) s of
                (Inr n, s') \<Rightarrow>
                  (Inr (UserCreds (token_userId (token_result w n)) (token_resource (token_result w n))), s')
              | (Inl e, s') \<Rightarrow> interactive (s'\<lparr>trace := trace s' @ [LogError e]\<rparr>))
        else interactive s)"

definition tokenFromUserCredentials :: "world \<Rightarrow> user_creds \<Rightarrow> token_response prog" where
  "tokenFromUserCredentials w creds =
     bnd (remote w (CredsGetToken creds)) (\<lambda>n. ret (token_result w n))"

section \<open>The sample\<close>

definition squote :: char where
  "squote = CHR 0x27"

definition dquote :: char where
  "dquote = CHR 0x22"

definition role_filter :: string where
  "role_filter = ''roleName eq '' @ [squote] @ ''Storage Account Key Operator Service Role'' @ [squote]"

text \<open>\<^verbatim>\<open>roleList[0].id\<close>: reading \<^verbatim>\<open>id\<close> of the first element throws a \<^verbatim>\<open>TypeError\<close>
  when the list is empty.\<close>

definition first_role_id :: "role_definition list \<Rightarrow> string prog" where
  "first_role_id roleList =
     (case roleList of
        [] \<Rightarrow> throw (JsError ''TypeError'' None ''Cannot read property id of undefined'')
      | r # _ \<Rightarrow> ret (role_id r))"

text \<open>The \<^verbatim>\<open>try\<close>/\<^verbatim>\<open>catch\<close> statement around \<^verbatim>\<open>roleAssignments.create\<close>, the same in both
  samples.\<close>

definition granted_role_line :: string where
  "granted_role_line = ''Granted role '' @ [dquote] @ ''Storage Account Key Operator Service Role''
     @ [dquote] @ '' to Key Vault on storage account''"

definition grantRole :: "world \<Rightarrow> string \<Rightarrow> string \<Rightarrow> role_assignment_params \<Rightarrow> unit prog" where
  "grantRole w scope roleAssignmentName roleAssignmentParams =
     try_catch
       (bnd (remote w (RoleAssignmentsCreate scope roleAssignmentName roleAssignmentParams)) (\<lambda>_.
        console_log granted_role_line))
       (\<lambda>e. if err_code e \<noteq> Some ''RoleAssignmentExists'' then throw e else ret ())"

text \<open>\<^verbatim>\<open>vault.properties.accessPolicies.push(entry)\<close>: the object at the address is changed
  in place.\<close>

definition push_policy :: "access_policy_entry \<Rightarrow> vault \<Rightarrow> vault" where
  "push_policy entry x =
     x\<lparr>properties := (properties x)\<lparr>accessPolicies := accessPolicies (properties x) @ [entry]\<rparr>\<rparr>"

definition accessPolicies_push :: "nat \<Rightarrow> access_policy_entry \<Rightarrow> unit prog" where
  "accessPolicies_push r entry = (\<lambda>s. (Inr (), s\<lparr>heap := (heap s)(r := push_policy entry (heap s r))\<rparr>))"

text \<open>Reading the vault object behind the reference (\<^verbatim>\<open>vault.name\<close>,
  \<^verbatim>\<open>vault.properties.vaultUri\<close>, or the whole object passed as an argument).\<close>

definition deref :: "nat \<Rightarrow> vault prog" where
  "deref r = (\<lambda>s. (Inr (heap s r), s))"

text \<open>The \<^verbatim>\<open>encryption\<close> patch of the newer sample that binds the account to a vault key.\<close>

definition keyvault_encryption :: "string \<Rightarrow> string \<Rightarrow> encryption" where
  "keyvault_encryption key uri =
     Encryption ''Microsoft.Keyvault'' (Some (KeyVaultProperties key uri)) (Some (True, ''Account''))"

text \<open>
  The functions of the sample, in the order of the source.  \<^verbatim>\<open>addStorageAccount\<close> is given
  once for each sample; the other functions branch on the variant where the two samples
  differ.  \<^verbatim>\<open>getStorageAccounts\<close>, \<^verbatim>\<open>createBlobSASDefinition\<close> and \<^verbatim>\<open>getSASDefinitions\<close>
  exist in the older sample only.
\<close>

definition addStorageAccount_track1 :: "config \<Rightarrow> world \<Rightarrow> nat \<Rightarrow> storage_account prog" where
  "addStorageAccount_track1 cfg w vault =
     bnd (getUserCredentials cfg w None None) (\<lambda>userCreds.
     bnd (console_log (''Creating storage account: '' @ storageAccName cfg)) (\<lambda>_.
     bnd (remote w (StorageAccountsCreate (groupName cfg) (storageAccName cfg)
            (CreateParams (azureLocation cfg) ''Standard_RAGRS'' ''Storage'' None))) (\<lambda>n.
     let storageAccount = account_result w n in
     bnd (remote w (RoleDefinitionsList ''/'' role_filter)) (\<lambda>m.
     bnd (first_role_id (roles_result w m)) (\<lambda>roleId.
     bnd (draw_uuidv4 w) (\<lambda>roleAssignmentName.
     bnd (grantRole w (sa_id storageAccount) roleAssignmentName
            (RoleAssignmentParams roleId ''93c27d83-f79b-4cb2-8dd4-4aa716542e74'')) (\<lambda>_.
     bnd (getManagementCredentials Track1 cfg w) (\<lambda>_.
     bnd (tokenFromUserCredentials w userCreds) (\<lambda>userToken.
     bnd (accessPolicies_push vault
            \<lparr> ape_tenantId = tenantId cfg, ape_objectId = oid userToken,
              ape_permissions =
                \<lparr> keys = [''all''], secrets = [''all''], storage = [''all''],
                  certificates = Some [''all''] \<rparr> \<rparr>) (\<lambda>_.
     bnd (deref vault) (\<lambda>x.
     bnd (remote w (VaultsCreateOrUpdate (groupName cfg) (vault_name x) (Whole x))) (\<lambda>_.
     bnd (console_log ''Granted user access to vault.'') (\<lambda>_.
     bnd (remote w (KvSetStorageAccount (vaultUri (properties x)) (sa_name storageAccount)
            (sa_id storageAccount) ''key1'' True ''P30D'' True)) (\<lambda>_.
     bnd (console_log ''Added storage account to vault.'') (\<lambda>_.
     ret storageAccount)))))))))))))))"

text \<open>\<^verbatim>\<open>storageAccount.identity.principalId\<close>: reading \<^verbatim>\<open>principalId\<close> throws a
  \<^verbatim>\<open>TypeError\<close> when the account came back without an identity.\<close>

definition principal_of :: "storage_account \<Rightarrow> string prog" where
  "principal_of storageAccount =
     (case sa_identity storageAccount of
        None \<Rightarrow> throw (JsError ''TypeError'' None ''Cannot read property principalId of undefined'')
      | Some p \<Rightarrow> ret p)"

definition addStorageAccount_track2 :: "config \<Rightarrow> world \<Rightarrow> nat \<Rightarrow> storage_account prog" where
  "addStorageAccount_track2 cfg w vault =
     bnd (console_log (''Creating storage account: '' @ storageAccName cfg)) (\<lambda>_.
     bnd (remote w (StorageAccountsCreate (groupName cfg) (storageAccName cfg)
            (CreateParams (azureLocation cfg) ''Standard_RAGRS'' ''StorageV2'' (Some ''SystemAssigned'')))) (\<lambda>n.
     let storageAccount = account_result w n in
     bnd (remote w (RoleDefinitionsList ''/'' role_filter)) (\<lambda>m.
     bnd (first_role_id (roles_result w m)) (\<lambda>roleId.
     bnd (draw_uuidv4 w) (\<lambda>roleAssignmentName.
     bnd (grantRole w (sa_id storageAccount) roleAssignmentName
            (RoleAssignmentParams roleId ''93c27d83-f79b-4cb2-8dd4-4aa716542e74'')) (\<lambda>_.
     bnd (getManagementCredentials Track2 cfg w) (\<lambda>_.
     bnd (principal_of storageAccount) (\<lambda>principal.
     bnd (accessPolicies_push vault
            \<lparr> ape_tenantId = tenantId cfg, ape_objectId = principal,
              ape_permissions =
                \<lparr> keys = [''all''],
                  secrets = [''get'', ''list'', ''set'', ''delete'', ''backup'', ''restore'',
                             ''recover'', ''purge''],
                  storage = [''get'', ''list'', ''delete'', ''set'', ''update'',
                             ''regeneratekey'', ''recover'', ''purge'', ''backup'', ''restore'',
                             ''setsas'', ''listsas'', ''getsas'', ''deletesas''],
                  certificates = None \<rparr> \<rparr>) (\<lambda>_.
     bnd (deref vault) (\<lambda>x.
     bnd (remote w (VaultsCreateOrUpdate (groupName cfg) (vault_name x) (Whole x))) (\<lambda>_.
     bnd (console_log ''Granted user access to vault.'') (\<lambda>_.
     bnd (remote w (KeysCreateKey (vaultUri (properties x)) ''key1'' ''RSA'')) (\<lambda>_.
     bnd (remote w (StorageAccountsUpdate (groupName cfg) (sa_name storageAccount)
            (keyvault_encryption ''key1'' (vaultUri (properties x))))) (\<lambda>_.
     bnd (console_log ''Added storage account to vault.'') (\<lambda>_.
     ret storageAccount)))))))))))))))"

definition addStorageAccount :: "variant \<Rightarrow> config \<Rightarrow> world \<Rightarrow> nat \<Rightarrow> storage_account prog" where
  "addStorageAccount v cfg w vault =
     (case v of Track1 \<Rightarrow> addStorageAccount_track1 cfg w vault
              | Track2 \<Rightarrow> addStorageAccount_track2 cfg w vault)"

definition updateStorageAccount ::
  "variant \<Rightarrow> config \<Rightarrow> world \<Rightarrow> storage_account \<Rightarrow> nat \<Rightarrow> unit prog" where
  "updateStorageAccount v cfg w storageAccount vault =
     bnd (deref vault) (\<lambda>x.
     case v of
       Track1 \<Rightarrow>
         bnd (console_log ''Updating storage account active key'') (\<lambda>_.
         bnd (remote w (KvUpdateStorageAccount (vaultUri (properties x)) (sa_name storageAccount)
                (ActiveKeyName ''key2''))) (\<lambda>_.
         bnd (console_log ''Disabling automatic key regeneration'') (\<lambda>_.
         bnd (remote w (KvUpdateStorageAccount (vaultUri (properties x)) (sa_name storageAccount)
                (AutoRegenerateKey False))) (\<lambda>_.
         ret ()))))
     | Track2 \<Rightarrow>
         bnd (remote w (KeysCreateKey (vaultUri (properties x)) ''key2'' ''RSA'')) (\<lambda>_.
         bnd (remote w (StorageAccountsUpdate (groupName cfg) (sa_name storageAccount)
                (keyvault_encryption ''key2'' (vaultUri (properties x))))) (\<lambda>_.
         ret ())))"

definition regenerateStorageAccountKey ::
  "variant \<Rightarrow> config \<Rightarrow> world \<Rightarrow> storage_account \<Rightarrow> nat \<Rightarrow> unit prog" where
  "regenerateStorageAccountKey v cfg w storageAccount vault =
     bnd (console_log ''Regenerating storage account key1'') (\<lambda>_.
     case v of
       Track1 \<Rightarrow>
         bnd (deref vault) (\<lambda>x.
         bnd (remote w (KvRegenerateStorageAccountKey (vaultUri (properties x))
                (sa_name storageAccount) ''key1'')) (\<lambda>_.
         ret ()))
     | Track2 \<Rightarrow>
         bnd (remote w (StorageAccountsRegenerateKey (groupName cfg) (sa_name storageAccount)
                ''key1'')) (\<lambda>_.
         ret ()))"

text \<open>\<^verbatim>\<open>result.forEach(x => console.log(prefix + x + suffix))\<close>.\<close>

fun log_each :: "string \<Rightarrow> string \<Rightarrow> string list \<Rightarrow> unit prog" where
  "log_each pre post [] = ret ()"
| "log_each pre post (x # xs) = bnd (console_log (pre @ x @ post)) (\<lambda>_. log_each pre post xs)"

definition getStorageAccounts :: "world \<Rightarrow> nat \<Rightarrow> unit prog" where
  "getStorageAccounts w vault =
     bnd (deref vault) (\<lambda>x.
     bnd (remote w (KvGetStorageAccounts (vaultUri (properties x)))) (\<lambda>n.
     bnd (console_log []) (\<lambda>_.
     bnd (console_log ''Listing storage accounts'') (\<lambda>_.
     bnd (log_each (''Storage account: '' @ [squote]) [squote] (listing_result w n)) (\<lambda>_.
     console_log [])))))"

text \<open>\<^verbatim>\<open>KeyVault.parseSecretIdentifier\<close> is a pure function of the vendor library that
  throws on an identifier it cannot parse.\<close>

definition parse_secret_id :: "world \<Rightarrow> string \<Rightarrow> secret_identifier prog" where
  "parse_secret_id w x = (\<lambda>s. (parseSecretIdentifier w x, s))"

definition createAccountSASDefinition ::
  "variant \<Rightarrow> config \<Rightarrow> world \<Rightarrow> storage_account \<Rightarrow> nat \<Rightarrow> unit prog" where
  "createAccountSASDefinition v cfg w storageAccount vault =
     (case v of
        Track1 \<Rightarrow>
          bnd (deref vault) (\<lambda>x.
          let sasTemplate = generateAccountSharedAccessSignature w (sa_name storageAccount) ''00000000''
                              (AccountSasPolicy ''bfqt'' ''sco'' ''acdlpruw'' ''2020-01-01'') in
          bnd (remote w (KvSetSasDefinition (vaultUri (properties x)) (sa_name storageAccount)
                 ''acctall'' sasTemplate ''account'' ''PT2H'' True)) (\<lambda>n.
          bnd (parse_secret_id w (sasdef_result w n)) (\<lambda>secretId.
          bnd (remote w (KvGetSecret (si_vault secretId) (si_name secretId) [])) (\<lambda>m.
          let host = sa_name storageAccount @ ''.'' @ CLOUD_BLOB_HOST w;
              accountSasToken = secret_result w m in
          bnd (remote w (BlobCreateContainerIfNotExists host accountSasToken ''sample-container'')) (\<lambda>_.
          bnd (remote w (BlobCreateBlockBlobFromText host accountSasToken ''sample-container''
                 ''blob1'' ''test data'')) (\<lambda>_.
          console_log ''Created sample blob using account SAS definition.''))))))
      | Track2 \<Rightarrow>
          bnd (remote w (StorageAccountsListAccountSAS (groupName cfg) (sa_name storageAccount)
                 (ListSasPolicy ''key1'' ''2022-04-11'' ''2022-05-24'' ''https,http'' ''bfqt'' ''sco''
                    ''acdlpruw''))) (\<lambda>n.
          let url = ''https://'' @ sa_name storageAccount @ ''.blob.core.windows.net?'' @ sas_result w n in
          bnd (console_log ''Created sample container using account SAS definition.'') (\<lambda>_.
          bnd (remote w (ContainerCreate url ''sample-container'')) (\<lambda>_.
          bnd (console_log ''Created sample blob using account SAS definition.'') (\<lambda>_.
          bnd (remote w (BlockBlobUpload url ''sample-container'' ''blob1'' ''test data''
                 (length ''test data''))) (\<lambda>_.
          console_log ''Upload block blob blob1 successfully''))))))"

definition createBlobSASDefinition :: "world \<Rightarrow> storage_account \<Rightarrow> nat \<Rightarrow> unit prog" where
  "createBlobSASDefinition w storageAccount vault =
     bnd (deref vault) (\<lambda>x.
     let token = generateSharedAccessSignature w (sa_name storageAccount) ''sample-container'' ''racwdl'';
         sasTemplate = getUrl w (sa_name storageAccount) ''sample-container'' token in
     bnd (remote w (KvSetSasDefinition (vaultUri (properties x)) (sa_name storageAccount)
            ''blobcontall'' sasTemplate ''service'' ''PT2H'' True)) (\<lambda>n.
     bnd (parse_secret_id w (sasdef_result w n)) (\<lambda>secretId.
     bnd (remote w (KvGetSecret (si_vault secretId) (si_name secretId) [])) (\<lambda>m.
     let host = sa_name storageAccount @ ''.'' @ CLOUD_BLOB_HOST w;
         containerToken = secret_result w m in
     bnd (remote w (BlobCreateBlockBlobFromText host containerToken ''sample-container''
            ''blob1'' ''test data'')) (\<lambda>_.
     console_log ''Created sample blob using container SAS definition.'')))))"

definition getSASDefinitions :: "world \<Rightarrow> storage_account \<Rightarrow> nat \<Rightarrow> unit prog" where
  "getSASDefinitions w storageAccount vault =
     bnd (deref vault) (\<lambda>x.
     bnd (remote w (KvGetSasDefinitions (vaultUri (properties x)) (sa_name storageAccount))) (\<lambda>n.
     bnd (console_log []) (\<lambda>_.
     bnd (console_log ''Listing SAS definitions'') (\<lambda>_.
     bnd (log_each ''SAS def id: '' [] (listing_result w n)) (\<lambda>_.
     console_log [])))))"

definition deleteStorageAccount ::
  "variant \<Rightarrow> config \<Rightarrow> world \<Rightarrow> nat \<Rightarrow> storage_account \<Rightarrow> unit prog" where
  "deleteStorageAccount v cfg w vault storageAccount =
     (case v of
        Track1 \<Rightarrow>
          bnd (deref vault) (\<lambda>x.
          bnd (remote w (KvDeleteStorageAccount (vaultUri (properties x)) (sa_name storageAccount))) (\<lambda>_.
          console_log ''The storage account has been removed from the vault''))
      | Track2 \<Rightarrow>
          bnd (remote w (StorageAccountsUpdate (groupName cfg) (sa_name storageAccount)
                 (Encryption ''Microsoft.Storage'' None None))) (\<lambda>_.
          console_log ''The storage account has been removed from the vault''))"

text \<open>The body of \<^verbatim>\<open>main\<close> after the vault has been obtained: the statements from
  \<^verbatim>\<open>addStorageAccount(vault)\<close> to \<^verbatim>\<open>deleteStorageAccount(...)\<close>.\<close>

definition main_steps :: "variant \<Rightarrow> config \<Rightarrow> world \<Rightarrow> nat \<Rightarrow> unit prog" where
  "main_steps v cfg w vault =
     bnd (addStorageAccount v cfg w vault) (\<lambda>storageAccount.
     bnd (updateStorageAccount v cfg w storageAccount vault) (\<lambda>_.
     bnd (regenerateStorageAccountKey v cfg w storageAccount vault) (\<lambda>_.
     case v of
       Track1 \<Rightarrow>
         bnd (getStorageAccounts w vault) (\<lambda>_.
         bnd (createAccountSASDefinition v cfg w storageAccount vault) (\<lambda>_.
         bnd (createBlobSASDefinition w storageAccount vault) (\<lambda>_.
         bnd (getSASDefinitions w storageAccount vault) (\<lambda>_.
         deleteStorageAccount v cfg w vault storageAccount))))
     | Track2 \<Rightarrow>
         bnd (createAccountSASDefinition v cfg w storageAccount vault) (\<lambda>_.
         deleteStorageAccount v cfg w vault storageAccount))))"

definition main :: "variant \<Rightarrow> config \<Rightarrow> world \<Rightarrow> unit prog" where
  "main v cfg w =
     bnd (console_log ''Azure Key Vault - Managed Storage Account Key Sample'') (\<lambda>_.
     bnd (getSampleVault v cfg w) (\<lambda>vault.
     main_steps v cfg w vault))"

subsection \<open>The process\<close>

definition empty_vault :: vault where
  "empty_vault = \<lparr> vault_name = [], properties = \<lparr> vaultUri = [], accessPolicies = [] \<rparr> \<rparr>"

definition initial_state :: state where
  "initial_state =
     \<lparr> trace = [], drawn = 0, config_vault = None, config_userId = None,
       heap = (\<lambda>_. empty_vault), next_ref = 0 \<rparr>"

text \<open>
  Running the sample file: requiring the utility module evaluates its top level (an error
  thrown there is an uncaught exception), then \<^verbatim>\<open>main().then(...)\<close> runs.  The handler
  passed to \<^verbatim>\<open>then\<close> logs the completion line when \<^verbatim>\<open>main\<close> is fulfilled; no rejection
  handler is attached, so a rejection of \<^verbatim>\<open>main\<close> stays unhandled.
\<close>

definition completion_line :: string where
  "completion_line = ''Sample execution complete.''"

datatype outcome = Fulfilled | UnhandledRejection error | UncaughtException error

definition run_sample :: "variant \<Rightarrow> env \<Rightarrow> world \<Rightarrow> outcome \<times> state" where
  "run_sample v env w =
     (case load_config v env w initial_state of
        (Inl e, s) \<Rightarrow> (UncaughtException e, s)
      | (Inr cfg, s) \<Rightarrow>
          (case main v cfg w s of
             (Inl e, s') \<Rightarrow> (UnhandledRejection e, s')
           | (Inr _, s') \<Rightarrow> (Fulfilled, s'\<lparr>trace := trace s' @ [Log completion_line]\<rparr>)))"


fun printed :: "event list \<Rightarrow> string list" where
  "printed [] = []"
| "printed (Log line # es) = line # printed es"
| "printed (LogError e # es) = (err_name e @ '': '' @ err_message e) # printed es"
| "printed (Called c r # es) = printed es"


section \<open>Vocabulary of the properties\<close>

text \<open>The events a computation added to the trace, and the calls among a list of events.\<close>

definition new_events :: "state \<Rightarrow> state \<Rightarrow> event list" where
  "new_events s s' = drop (length (trace s)) (trace s')"

fun calls_of :: "event list \<Rightarrow> call list" where
  "calls_of [] = []"
| "calls_of (Called c r # es) = c # calls_of es"
| "calls_of (ev # es) = calls_of es"

fun is_vault_create :: "call \<Rightarrow> bool" where
  "is_vault_create (VaultsCreateOrUpdate g n p) = True"
| "is_vault_create c = False"

fun is_role_assignment_create :: "call \<Rightarrow> bool" where
  "is_role_assignment_create (RoleAssignmentsCreate sc n p) = True"
| "is_role_assignment_create c = False"

fun is_resource_group_call :: "call \<Rightarrow> bool" where
  "is_resource_group_call (ResourceGroupsCreateOrUpdate g l) = True"
| "is_resource_group_call c = False"

subsection \<open>Order of the steps\<close>

text \<open>The vault has been acquired once the lookup, or the creation with the creation
  parameters, has resolved.\<close>

fun is_vault_acquired :: "event \<Rightarrow> bool" where
  "is_vault_acquired (Called (VaultsGet g n) None) = True"
| "is_vault_acquired (Called (VaultsCreateOrUpdate g n (Params p)) None) = True"
| "is_vault_acquired ev = False"

fun is_account_creation :: "event \<Rightarrow> bool" where
  "is_account_creation (Called (StorageAccountsCreate g n p) r) = True"
| "is_account_creation ev = False"

text \<open>The role assignment is complete when the call resolved or was rejected with the
  tolerated conflict.\<close>

fun is_role_assigned :: "event \<Rightarrow> bool" where
  "is_role_assigned (Called (RoleAssignmentsCreate sc n p) None) = True"
| "is_role_assigned (Called (RoleAssignmentsCreate sc n p) (Some e)) =
     (err_code e = Some ''RoleAssignmentExists'')"
| "is_role_assigned ev = False"

text \<open>Key-management calls: registering the account with the vault, updating it,
  regenerating a key, and in the newer sample creating the vault key, binding the account's
  encryption to it and regenerating the account key.\<close>

fun is_key_management :: "event \<Rightarrow> bool" where
  "is_key_management (Called (KvSetStorageAccount a b c d e f g) r) = True"
| "is_key_management (Called (KvUpdateStorageAccount a b c) r) = True"
| "is_key_management (Called (KvRegenerateStorageAccountKey a b c) r) = True"
| "is_key_management (Called (KeysCreateKey a b c) r) = True"
| "is_key_management (Called (StorageAccountsUpdate a b c) r) = True"
| "is_key_management (Called (StorageAccountsRegenerateKey a b c) r) = True"
| "is_key_management ev = False"

text \<open>A SAS has been defined when the definition was stored (older sample) or the account
  SAS was listed (newer sample); the token has been issued when the managed secret was read
  (older sample) or the account SAS was listed (newer sample).\<close>

fun is_sas_defined :: "event \<Rightarrow> bool" where
  "is_sas_defined (Called (KvSetSasDefinition a b c d e f g) None) = True"
| "is_sas_defined (Called (StorageAccountsListAccountSAS a b c) None) = True"
| "is_sas_defined ev = False"

fun is_sas_issued :: "event \<Rightarrow> bool" where
  "is_sas_issued (Called (KvGetSecret a b c) None) = True"
| "is_sas_issued (Called (StorageAccountsListAccountSAS a b c) None) = True"
| "is_sas_issued ev = False"

fun is_data_plane_write :: "event \<Rightarrow> bool" where
  "is_data_plane_write (Called (BlobCreateContainerIfNotExists a b c) r) = True"
| "is_data_plane_write (Called (BlobCreateBlockBlobFromText a b c d e) r) = True"
| "is_data_plane_write (Called (ContainerCreate a b) r) = True"
| "is_data_plane_write (Called (BlockBlobUpload a b c d e) r) = True"
| "is_data_plane_write ev = False"

text \<open>\<open>preceded P Q tr\<close>: no \<open>Q\<close> event occurs in \<open>tr\<close> before the first \<open>P\<close> event.\<close>

fun preceded :: "(event \<Rightarrow> bool) \<Rightarrow> (event \<Rightarrow> bool) \<Rightarrow> event list \<Rightarrow> bool" where
  "preceded P Q [] = True"
| "preceded P Q (x # xs) = (if Q x then False else if P x then True else preceded P Q xs)"

definition never :: "(event \<Rightarrow> bool) \<Rightarrow> event list \<Rightarrow> bool" where
  "never Q tr = list_all (\<lambda>ev. \<not> Q ev) tr"

definition reached :: "(event \<Rightarrow> bool) \<Rightarrow> (event \<Rightarrow> bool) \<Rightarrow> event list \<Rightarrow> bool" where
  "reached P Q tr = (list_ex P tr \<and> preceded P Q tr)"

subsection \<open>Failures\<close>

text \<open>The one rejection the sample tolerates: a role-assignment creation rejected with
  the code \<^verbatim>\<open>RoleAssignmentExists\<close>.\<close>

definition is_role_conflict :: "call \<Rightarrow> error \<Rightarrow> bool" where
  "is_role_conflict c e = (is_role_assignment_create c \<and> err_code e = Some ''RoleAssignmentExists'')"

fun tolerated :: "event \<Rightarrow> bool" where
  "tolerated (Called c (Some e)) = is_role_conflict c e"
| "tolerated ev = True"

definition clean :: "event list \<Rightarrow> bool" where
  "clean tr = list_all tolerated tr"

text \<open>A trace that ends with the call rejected with \<open>e\<close>, every earlier rejection having
  been tolerated.\<close>

definition ends_rejected :: "error \<Rightarrow> event list \<Rightarrow> bool" where
  "ends_rejected e tr =
     (case rev tr of
        Called c (Some e') # pre \<Rightarrow> e' = e \<and> clean (rev pre)
      | _ \<Rightarrow> False)"

definition stopped :: "error \<Rightarrow> event list \<Rightarrow> bool" where
  "stopped e tr = (clean tr \<or> ends_rejected e tr)"

subsection \<open>Assertions about computations\<close>

text \<open>\<open>triple P m Q E\<close>: started in a state satisfying \<open>P\<close>, the computation \<open>m\<close> ends
  in a state satisfying \<open>Q\<close> when it returns and \<open>E e\<close> when it throws \<open>e\<close>.\<close>

definition triple ::
  "(state \<Rightarrow> bool) \<Rightarrow> 'a prog \<Rightarrow> (state \<Rightarrow> bool) \<Rightarrow> (error \<Rightarrow> state \<Rightarrow> bool) \<Rightarrow> bool" where
  "triple P m Q E = (\<forall>s. P s \<longrightarrow> (case m s of (Inr x, s') \<Rightarrow> Q s' | (Inl e, s') \<Rightarrow> E e s'))"

text \<open>The vault objects are as in \<open>h0\<close> and the trace extends \<open>tr0\<close>.\<close>

definition untouched :: "(nat \<Rightarrow> vault) \<Rightarrow> event list \<Rightarrow> state \<Rightarrow> bool" where
  "untouched h0 tr0 s = (heap s = h0 \<and> prefix tr0 (trace s))"

text \<open>One entry has been appended to the access policies of the vault at \<open>r\<close>, nothing else
  in the heap has changed, and since \<open>tr0\<close> the whole updated vault has been passed to
  \<^verbatim>\<open>vaults.createOrUpdate\<close>.\<close>

definition pushed :: "config \<Rightarrow> nat \<Rightarrow> (nat \<Rightarrow> vault) \<Rightarrow> event list \<Rightarrow> state \<Rightarrow> bool" where
  "pushed cfg r h0 tr0 s =
     (\<exists>entry res.
        heap s = h0(r := push_policy entry (h0 r)) \<and> prefix tr0 (trace s) \<and>
        Called (VaultsCreateOrUpdate (groupName cfg) (vault_name (h0 r))
                  (Whole (push_policy entry (h0 r)))) res
          \<in> set (drop (length tr0) (trace s)))"

section \<open>Sample inputs\<close>

definition sample_env :: env where
  "sample_env =
     [''AZURE_SUBSCRIPTION_ID'' \<mapsto> ''sub-1'', ''AZURE_TENANT_ID'' \<mapsto> ''tenant-1'',
      ''AZURE_CLIENT_ID'' \<mapsto> ''client-1'', ''AZURE_CLIENT_OID'' \<mapsto> ''oid-1'',
      ''AZURE_CLIENT_SECRET'' \<mapsto> ''s3cret'']"

definition env_without_tenant :: env where
  "env_without_tenant =
     [''AZURE_SUBSCRIPTION_ID'' \<mapsto> ''sub-1'',
      ''AZURE_CLIENT_ID'' \<mapsto> ''client-1'', ''AZURE_CLIENT_OID'' \<mapsto> ''oid-1'',
      ''AZURE_CLIENT_SECRET'' \<mapsto> ''s3cret'']"

definition sample_config :: config where
  "sample_config =
     \<lparr> subscriptionId = ''sub-1'', tenantId = ''tenant-1'', clientId = ''client-1'',
       objectId = ''oid-1'', secret = ''s3cret'', azureLocation = ''westus'',
       groupName = ''azure-sample-group'', storageAccName = ''said'', vaultName = None \<rparr>"

definition named_config :: config where
  "named_config = sample_config\<lparr>vaultName := Some ''kv1''\<rparr>"

definition sample_vault :: vault where
  "sample_vault =
     \<lparr> vault_name = ''kv1'',
       properties = \<lparr> vaultUri = ''https://kv1.vault.azure.net'', accessPolicies = [] \<rparr> \<rparr>"

definition sample_account :: storage_account where
  "sample_account =
     \<lparr> sa_name = ''said'', sa_id = ''/subscriptions/sub-1/said'',
       sa_identity = Some ''sa-principal'' \<rparr>"

definition sample_world :: world where
  "sample_world =
     \<lparr> failure = (\<lambda>n c. None),
       random_id = (\<lambda>n. ''id'' @ replicate n (CHR ''x'')),
       uuidv4 = (\<lambda>n. ''uuid'' @ replicate n (CHR ''x'')),
       vault_result = (\<lambda>n. sample_vault),
       account_result = (\<lambda>n. sample_account),
       roles_result = (\<lambda>n. [RoleDefinition ''role-1'']),
       creds_result = (\<lambda>n. UserCreds ''user@example.com'' ''https://management.core.windows.net/''),
       token_result = (\<lambda>n. TokenResponse ''user-oid'' ''https://management.core.windows.net/''
                                ''user@example.com''),
       sasdef_result = (\<lambda>n. ''https://kv1.vault.azure.net/secrets/said-acctall''),
       secret_result = (\<lambda>n. ''sv=2017&sig=abc''),
       listing_result = (\<lambda>n. [''entry-1'']),
       sas_result = (\<lambda>n. ''sv=2021&sig=def''),
       DEFAULT_ADAL_CLIENT_ID = ''04b07795-8ddb-461a-bbee-02f9e1bf7b46'',
       CLOUD_BLOB_HOST = ''blob.core.windows.net'',
       generateAccountSharedAccessSignature = (\<lambda>account key policy. ''sv=template&sp='' @ Permissions policy),
       generateSharedAccessSignature = (\<lambda>account container perms. ''sp='' @ perms),
       getUrl = (\<lambda>account container token. ''https://'' @ account @ ''/'' @ container @ ''?'' @ token),
       parseSecretIdentifier =
         (\<lambda>x. Inr (SecretIdentifier ''https://kv1.vault.azure.net'' ''said-acctall'')) \<rparr>"

definition conflict_error :: error where
  "conflict_error =
     JsError ''Error'' (Some ''RoleAssignmentExists'') ''The role assignment already exists.''"

definition forbidden_error :: error where
  "forbidden_error =
     JsError ''Error'' (Some ''AuthorizationFailed'') ''The client does not have authorization.''"

text \<open>The sample world with every call of one kind rejected with the given error.\<close>

definition rejecting :: "(call \<Rightarrow> bool) \<Rightarrow> error \<Rightarrow> world" where
  "rejecting kind e = sample_world\<lparr>failure := (\<lambda>n c. if kind c then Some e else None)\<rparr>"


section \<open>Rules for assertions\<close>

lemma bnd_assoc: "bnd (bnd m f) g = bnd m (\<lambda>x. bnd (f x) g)"
  by (auto simp: bnd_def fun_eq_iff split: prod.splits sum.splits)

lemma triple_bnd:
  "triple P m Q E \<Longrightarrow> (\<And>x. triple Q (k x) R E) \<Longrightarrow> triple P (bnd m k) R E"
  by (fastforce simp: triple_def bnd_def split: prod.splits sum.splits)

lemma triple_seq:
  "triple I m I E \<Longrightarrow> (\<And>x. triple I (k x) R E) \<Longrightarrow> triple I (bnd m k) R E"
  by (rule triple_bnd)

lemma triple_if:
  "(c \<Longrightarrow> triple P a Q E) \<Longrightarrow> (\<not> c \<Longrightarrow> triple P b Q E) \<Longrightarrow> triple P (if c then a else b) Q E"
  by simp

lemma triple_ret: "(\<And>s. P s \<Longrightarrow> Q s) \<Longrightarrow> triple P (ret x) Q E"
  by (simp add: triple_def ret_def)

lemma triple_throw: "(\<And>s. P s \<Longrightarrow> E e s) \<Longrightarrow> triple P (throw e) Q E"
  by (simp add: triple_def throw_def)

lemma triple_log:
  "(\<And>s. P s \<Longrightarrow> Q (s\<lparr>trace := trace s @ [Log line]\<rparr>)) \<Longrightarrow> triple P (console_log line) Q E"
  by (simp add: triple_def console_log_def)

lemma triple_remote:
  "(\<And>s. P s \<Longrightarrow> Q (s\<lparr>trace := trace s @ [Called c None]\<rparr>)) \<Longrightarrow>
   (\<And>s e. P s \<Longrightarrow> E e (s\<lparr>trace := trace s @ [Called c (Some e)]\<rparr>)) \<Longrightarrow>
   triple P (remote w c) Q E"
  by (auto simp: triple_def remote_def Let_def split: option.splits)

lemma triple_draw_uuidv4:
  "(\<And>s. P s \<Longrightarrow> Q (s\<lparr>drawn := Suc (drawn s)\<rparr>)) \<Longrightarrow> triple P (draw_uuidv4 w) Q E"
  by (simp add: triple_def draw_uuidv4_def)

lemma triple_draw_random_id:
  "(\<And>s. P s \<Longrightarrow> Q (s\<lparr>drawn := Suc (drawn s)\<rparr>)) \<Longrightarrow> triple P (draw_random_id w) Q E"
  by (simp add: triple_def draw_random_id_def)

lemma triple_push:
  "(\<And>s. P s \<Longrightarrow> Q (s\<lparr>heap := (heap s)(r := push_policy entry (heap s r))\<rparr>)) \<Longrightarrow>
   triple P (accessPolicies_push r entry) Q E"
  by (simp add: triple_def accessPolicies_push_def)

lemma triple_store_vault:
  "(\<And>s. P s \<Longrightarrow> Q (s\<lparr>heap := (heap s)(next_ref s := x), next_ref := Suc (next_ref s),
                         config_vault := Some (next_ref s)\<rparr>)) \<Longrightarrow>
   triple P (store_vault x) Q E"
  by (simp add: triple_def store_vault_def Let_def)

lemma triple_deref: "(\<And>s. P s \<Longrightarrow> Q s) \<Longrightarrow> triple P (deref r) Q E"
  by (simp add: triple_def deref_def)

lemma triple_first_role_id:
  "(\<And>s. P s \<Longrightarrow> Q s) \<Longrightarrow> (\<And>s e. P s \<Longrightarrow> E e s) \<Longrightarrow> triple P (first_role_id rs) Q E"
  by (simp add: triple_def first_role_id_def throw_def ret_def split: list.splits)

lemma triple_principal_of:
  "(\<And>s. P s \<Longrightarrow> Q s) \<Longrightarrow> (\<And>s e. P s \<Longrightarrow> E e s) \<Longrightarrow> triple P (principal_of sa) Q E"
  by (simp add: triple_def principal_of_def throw_def ret_def split: option.splits)

lemma triple_parse_secret_id:
  "(\<And>s. P s \<Longrightarrow> Q s) \<Longrightarrow> (\<And>s e. P s \<Longrightarrow> E e s) \<Longrightarrow> triple P (parse_secret_id w x) Q E"
  by (simp add: triple_def parse_secret_id_def split: sum.splits)

lemma triple_log_each:
  assumes step: "\<And>s x. I s \<Longrightarrow> I (s\<lparr>trace := trace s @ [Log (pre @ x @ post)]\<rparr>)"
  shows "triple I (log_each pre post xs) I E"
proof (induction xs)
  case Nil
  show ?case by (simp add: triple_ret)
next
  case (Cons x xs)
  have "triple I (console_log (pre @ x @ post)) I E"
    by (rule triple_log) (rule step)
  with Cons.IH show ?case
    by (simp add: triple_seq)
qed

lemma triple_grantRole:
  "(\<And>s. P s \<Longrightarrow>
      Q (s\<lparr>trace := trace s @ [Called (RoleAssignmentsCreate sc nm ps) None, Log granted_role_line]\<rparr>)) \<Longrightarrow>
   (\<And>s e. P s \<Longrightarrow> err_code e = Some ''RoleAssignmentExists'' \<Longrightarrow>
      Q (s\<lparr>trace := trace s @ [Called (RoleAssignmentsCreate sc nm ps) (Some e)]\<rparr>)) \<Longrightarrow>
   (\<And>s e. P s \<Longrightarrow> err_code e \<noteq> Some ''RoleAssignmentExists'' \<Longrightarrow>
      E e (s\<lparr>trace := trace s @ [Called (RoleAssignmentsCreate sc nm ps) (Some e)]\<rparr>)) \<Longrightarrow>
   triple P (grantRole w sc nm ps) Q E"
  by (auto simp: triple_def grantRole_def try_catch_def bnd_def remote_def console_log_def
        throw_def ret_def Let_def split: option.splits)

lemma triple_tokenFromUserCredentials:
  "(\<And>s. P s \<Longrightarrow> Q (s\<lparr>trace := trace s @ [Called (CredsGetToken creds) None]\<rparr>)) \<Longrightarrow>
   (\<And>s e. P s \<Longrightarrow> E e (s\<lparr>trace := trace s @ [Called (CredsGetToken creds) (Some e)]\<rparr>)) \<Longrightarrow>
   triple P (tokenFromUserCredentials w creds) Q E"
  unfolding tokenFromUserCredentials_def
  by (rule triple_bnd[where Q=Q], rule triple_remote, assumption, assumption, rule triple_ret)

lemma triple_getManagementCredentials:
  "(\<And>s. P s \<Longrightarrow> v = Track2 \<Longrightarrow> Q s) \<Longrightarrow>
   (\<And>s. P s \<Longrightarrow> v = Track1 \<Longrightarrow>
      Q (s\<lparr>trace := trace s @ [Called (LoginWithServicePrincipalSecret (clientId cfg) (secret cfg) (tenantId cfg)) None]\<rparr>)) \<Longrightarrow>
   (\<And>s e. P s \<Longrightarrow> v = Track1 \<Longrightarrow>
      E e (s\<lparr>trace := trace s @ [Called (LoginWithServicePrincipalSecret (clientId cfg) (secret cfg) (tenantId cfg)) (Some e)]\<rparr>)) \<Longrightarrow>
   triple P (getManagementCredentials v cfg w) Q E"
  by (cases v) (auto simp: triple_def getManagementCredentials_def bnd_def remote_def ret_def Let_def
        split: option.splits)

lemma triple_getUserCredentials:
  assumes "\<And>s u. P s \<Longrightarrow> \<not> truthy (config_userId s) \<Longrightarrow>
            Q (s\<lparr>trace := trace s @ [Called (InteractiveLogin (or_default res ''https://management.core.windows.net/'') (tenantId cfg)) None],
                 config_userId := Some u\<rparr>)"
      and "\<And>s e. P s \<Longrightarrow> \<not> truthy (config_userId s) \<Longrightarrow>
            E e (s\<lparr>trace := trace s @ [Called (InteractiveLogin (or_default res ''https://management.core.windows.net/'') (tenantId cfg)) (Some e)]\<rparr>)"
      and "\<And>s. P s \<Longrightarrow> truthy (config_userId s) \<Longrightarrow>
            Q (s\<lparr>trace := trace s @ [Called (AcquireToken (or_default res ''https://management.core.windows.net/'') (the (config_userId s)) (DEFAULT_ADAL_CLIENT_ID w)) None]\<rparr>)"
      and "\<And>s e u. P s \<Longrightarrow> truthy (config_userId s) \<Longrightarrow>
            Q (s\<lparr>trace := trace s @ [Called (AcquireToken (or_default res ''https://management.core.windows.net/'') (the (config_userId s)) (DEFAULT_ADAL_CLIENT_ID w)) (Some e),
                     LogError e,
                     Called (InteractiveLogin (or_default res ''https://management.core.windows.net/'') (tenantId cfg)) None],
                 config_userId := Some u\<rparr>)"
      and "\<And>s e e2. P s \<Longrightarrow> truthy (config_userId s) \<Longrightarrow>
            E e2 (s\<lparr>trace := trace s @ [Called (AcquireToken (or_default res ''https://management.core.windows.net/'') (the (config_userId s)) (DEFAULT_ADAL_CLIENT_ID w)) (Some e),
                     LogError e,
                     Called (InteractiveLogin (or_default res ''https://management.core.windows.net/'') (tenantId cfg)) (Some e2)]\<rparr>)"
  shows "triple P (getUserCredentials cfg w res cid) Q E"
  unfolding triple_def
proof (intro allI impI)
  fix s assume P: "P s"
  show "case getUserCredentials cfg w res cid s of (Inr x, s') \<Rightarrow> Q s' | (Inl e, s') \<Rightarrow> E e s'"
  proof (cases "truthy (config_userId s)")
    case False
    then show ?thesis
      using assms(1)[OF P False] assms(2)[OF P False]
      by (auto simp: getUserCredentials_def Let_def bnd_def remote_def ret_def split: option.splits)
  next
    case True
    then show ?thesis
      using assms(3)[OF P True] assms(4)[OF P True] assms(5)[OF P True]
      by (auto simp: getUserCredentials_def Let_def bnd_def remote_def ret_def split: option.splits)
  qed
qed

lemma triple_getSampleVault:
  assumes "\<And>s. P s \<Longrightarrow> config_vault s \<noteq> None \<Longrightarrow> Q s"
      and "triple (\<lambda>s. P s \<and> config_vault s = None)
             (bnd (getManagementCredentials v cfg w) (\<lambda>credentials.
          if truthy (vaultName cfg)
          then bnd (remote w (VaultsGet (groupName cfg) (the (vaultName cfg)))) (\<lambda>n.
               store_vault (vault_result w n))
          else bnd (remote w (ResourceGroupsCreateOrUpdate (groupName cfg) (azureLocation cfg))) (\<lambda>_.
               bnd (draw_random_id w) (\<lambda>kvName.
               bnd (console_log (''Creating sample key vault: '' @ kvName)) (\<lambda>_.
               bnd (remote w (VaultsCreateOrUpdate (groupName cfg) kvName (Params (kvParams v cfg)))) (\<lambda>n.
               store_vault (vault_result w n))))))) Q E"
  shows "triple P (getSampleVault v cfg w) Q E"
  using assms unfolding triple_def getSampleVault_def
  by (auto split: option.splits)

text \<open>The three statements that append the entry and push the vault, taken together.\<close>

lemma triple_push_update:
  assumes ok: "\<And>s. P s \<Longrightarrow>
             Q (s\<lparr>heap := (heap s)(r := push_policy entry (heap s r)),
                  trace := trace s @ [Called (VaultsCreateOrUpdate g (vault_name (heap s r))
                                              (Whole (push_policy entry (heap s r)))) None]\<rparr>)"
      and bad: "\<And>s e. P s \<Longrightarrow>
             E e (s\<lparr>heap := (heap s)(r := push_policy entry (heap s r)),
                  trace := trace s @ [Called (VaultsCreateOrUpdate g (vault_name (heap s r))
                                              (Whole (push_policy entry (heap s r)))) (Some e)]\<rparr>)"
      and rest: "\<And>x n. triple Q (k x n) R E"
  shows "triple P
           (bnd (accessPolicies_push r entry) (\<lambda>_.
            bnd (deref r) (\<lambda>x.
            bnd (remote w (VaultsCreateOrUpdate g (vault_name x) (Whole x))) (k x)))) R E"
  unfolding triple_def
proof (intro allI impI)
  fix s assume P: "P s"
  let ?x = "push_policy entry (heap s r)"
  let ?c = "VaultsCreateOrUpdate g (vault_name (heap s r)) (Whole ?x)"
  have name: "vault_name ?x = vault_name (heap s r)"
    by (simp add: push_policy_def)
  show "case (bnd (accessPolicies_push r entry) (\<lambda>_.
            bnd (deref r) (\<lambda>x.
            bnd (remote w (VaultsCreateOrUpdate g (vault_name x) (Whole x))) (k x)))) s of
          (Inr x, s') \<Rightarrow> R s' | (Inl e, s') \<Rightarrow> E e s'"
  proof (cases "failure w (length (trace s)) ?c")
    case (Some e)
    then show ?thesis
      using bad[OF P, of e]
      by (simp add: bnd_def accessPolicies_push_def deref_def remote_def Let_def name)
  next
    case None
    let ?s1 = "s\<lparr>heap := (heap s)(r := ?x), trace := trace s @ [Called ?c None]\<rparr>"
    have "Q ?s1" by (rule ok[OF P])
    with rest[of ?x "length (trace s)"]
    have "case k ?x (length (trace s)) ?s1 of (Inr x, s') \<Rightarrow> R s' | (Inl e, s') \<Rightarrow> E e s'"
      by (simp add: triple_def)
    with None show ?thesis
      by (simp add: bnd_def accessPolicies_push_def deref_def remote_def Let_def name)
  qed
qed

lemmas prim_rules = triple_getManagementCredentials triple_ret triple_throw triple_log
  triple_remote triple_draw_uuidv4 triple_draw_random_id triple_push triple_store_vault
  triple_deref triple_first_role_id triple_principal_of triple_parse_secret_id
  triple_tokenFromUserCredentials triple_if

lemmas step_rules = triple_getSampleVault triple_grantRole triple_log_each
  triple_getUserCredentials triple_seq prim_rules

lemmas sample_defs = main_def main_steps_def addStorageAccount_def addStorageAccount_track1_def
  addStorageAccount_track2_def updateStorageAccount_def regenerateStorageAccountKey_def
  getStorageAccounts_def createAccountSASDefinition_def createBlobSASDefinition_def
  getSASDefinitions_def deleteStorageAccount_def

section \<open>User credentials\<close>

text \<open>With a user id remembered and the token cache failing, the failure is logged, not
  thrown, and the interactive login follows.  In a run of the sample the function is entered
  with no user id remembered, so this path is not taken by the sample's own calls.\<close>

lemma getUserCredentials_cache_miss_falls_back:
  assumes "truthy (config_userId s)"
      and "failure w (length (trace s))
             (AcquireToken (or_default res ''https://management.core.windows.net/'')
                (the (config_userId s)) (DEFAULT_ADAL_CLIENT_ID w)) = Some e"
      and "failure w (length (trace s) + 2)
             (InteractiveLogin (or_default res ''https://management.core.windows.net/'')
                (tenantId cfg)) = None"
  shows "getUserCredentials cfg w res cid s =
           (Inr (creds_result w (length (trace s) + 2)),
            s\<lparr>trace := trace s @
                 [Called (AcquireToken (or_default res ''https://management.core.windows.net/'')
                            (the (config_userId s)) (DEFAULT_ADAL_CLIENT_ID w)) (Some e),
                  LogError e,
                  Called (InteractiveLogin (or_default res ''https://management.core.windows.net/'')
                            (tenantId cfg)) None],
              config_userId := Some (username (creds_result w (length (trace s) + 2)))\<rparr>)"
  using assms
  by (simp add: getUserCredentials_def Let_def bnd_def remote_def ret_def)

section \<open>Failing fast\<close>

lemma clean_simps [simp]:
  "clean [] = True" "clean (ev # xs) = (tolerated ev \<and> clean xs)"
  "clean (xs @ ys) = (clean xs \<and> clean ys)"
  by (auto simp: clean_def)

lemma ends_rejected_snoc [simp]:
  "ends_rejected e (tr @ [Called c (Some e')]) = (e' = e \<and> clean tr)"
  by (simp add: ends_rejected_def)

lemma ends_rejectedD:
  "ends_rejected e tr \<Longrightarrow> \<exists>pre c. tr = pre @ [Called c (Some e)] \<and> clean pre"
proof -
  assume a: "ends_rejected e tr"
  show ?thesis
  proof (cases tr rule: rev_cases)
    case Nil
    with a show ?thesis by (simp add: ends_rejected_def)
  next
    case (snoc pre ev)
    with a show ?thesis
      by (cases ev) (auto simp: ends_rejected_def split: option.splits)
  qed
qed

lemma stopped_snoc: "clean tr \<Longrightarrow> stopped e (tr @ [Called c (Some e)])"
  by (simp add: stopped_def)

lemma stopped_clean: "clean tr \<Longrightarrow> stopped e tr"
  by (simp add: stopped_def)

lemma main_fail_fast:
  "triple (\<lambda>s. clean (trace s) \<and> \<not> truthy (config_userId s)) (main v cfg w)
     (\<lambda>s. clean (trace s)) (\<lambda>e s. stopped e (trace s))"
proof (cases v)
  case Track1
  show ?thesis
    unfolding sample_defs Let_def Track1
    apply (simp only: variant.case bnd_assoc)
    apply (intro triple_bnd[where m="getUserCredentials cfg w a b" and Q="\<lambda>s. clean (trace s)" for a b]
        step_rules)
    apply (simp_all add: stopped_snoc stopped_clean is_role_conflict_def)
    done
next
  case Track2
  show ?thesis
    unfolding sample_defs Let_def Track2
    apply (simp only: variant.case bnd_assoc)
    apply (intro step_rules)
    apply (simp_all add: stopped_snoc stopped_clean is_role_conflict_def)
    done
qed

section \<open>Order\<close>

lemma never_simps [simp]:
  "never Q [] = True" "never Q (ev # tr) = (\<not> Q ev \<and> never Q tr)"
  "never Q (xs @ ys) = (never Q xs \<and> never Q ys)"
  by (auto simp: never_def)

lemma preceded_if_never: "never Q tr \<Longrightarrow> preceded P Q tr"
  by (induction tr) auto

lemma reached_append: "reached P Q tr \<Longrightarrow> reached P Q (tr @ ys)"
  by (induction tr) (auto simp: reached_def)

lemma reached_first: "never Q tr \<Longrightarrow> P ev \<Longrightarrow> \<not> Q ev \<Longrightarrow> reached P Q (tr @ ev # ys)"
  by (induction tr) (auto simp: reached_def)

lemma preceded_if_reached: "reached P Q tr \<Longrightarrow> preceded P Q tr"
  by (simp add: reached_def)

lemma preceded_nth:
  "preceded P Q tr \<Longrightarrow> i < length tr \<Longrightarrow> Q (tr ! i) \<Longrightarrow> \<exists>j<i. P (tr ! j)"
proof (induction tr arbitrary: i)
  case Nil
  then show ?case by simp
next
  case (Cons x xs)
  show ?case
  proof (cases i)
    case 0
    with Cons.prems show ?thesis by (simp split: if_splits)
  next
    case (Suc k)
    show ?thesis
    proof (cases "P x")
      case True
      then show ?thesis using Suc by (intro exI[of _ 0]) simp
    next
      case False
      with Cons.prems Suc have "preceded P Q xs" "k < length xs" "Q (xs ! k)"
        by (auto split: if_splits)
      from Cons.IH[OF this] obtain j where "j < k" "P (xs ! j)" by blast
      then show ?thesis using Suc by (intro exI[of _ "Suc j"]) simp
    qed
  qed
qed

lemmas order_simps = preceded_if_never preceded_if_reached reached_append reached_first

lemma main_order_vault:
  "triple (\<lambda>s. never is_account_creation (trace s) \<and> config_vault s = None) (main v cfg w)
     (\<lambda>s. preceded is_vault_acquired is_account_creation (trace s))
     (\<lambda>e s. preceded is_vault_acquired is_account_creation (trace s))"
  unfolding sample_defs Let_def
  by (cases v; simp only: variant.case bnd_assoc;
      intro
        triple_bnd[where m="remote w (VaultsGet g n)" and Q="\<lambda>s. reached is_vault_acquired is_account_creation (trace s)" for g n]
        triple_bnd[where m="remote w (VaultsCreateOrUpdate g n (Params p))" and Q="\<lambda>s. reached is_vault_acquired is_account_creation (trace s)" for g n p]
        triple_bnd[where m="getSampleVault v0 cfg w" and Q="\<lambda>s. reached is_vault_acquired is_account_creation (trace s)" for v0]
        step_rules; simp add: order_simps)

lemma main_order_role:
  "triple (\<lambda>s. never is_key_management (trace s)) (main v cfg w)
     (\<lambda>s. preceded is_role_assigned is_key_management (trace s))
     (\<lambda>e s. preceded is_role_assigned is_key_management (trace s))"
  unfolding sample_defs Let_def
  by (cases v; simp only: variant.case bnd_assoc;
      intro
        triple_bnd[where m="grantRole w a b c" and Q="\<lambda>s. reached is_role_assigned is_key_management (trace s)" for a b c]
        step_rules; simp add: order_simps)

lemma main_order_sas_issued:
  "triple (\<lambda>s. never is_data_plane_write (trace s)) (main v cfg w)
     (\<lambda>s. preceded is_sas_issued is_data_plane_write (trace s))
     (\<lambda>e s. preceded is_sas_issued is_data_plane_write (trace s))"
  unfolding sample_defs Let_def
  by (cases v; simp only: variant.case bnd_assoc;
      intro
        triple_bnd[where m="remote w (KvGetSecret a b c)" and Q="\<lambda>s. reached is_sas_issued is_data_plane_write (trace s)" for a b c]
        triple_bnd[where m="remote w (StorageAccountsListAccountSAS a b c)" and Q="\<lambda>s. reached is_sas_issued is_data_plane_write (trace s)" for a b c]
        step_rules; simp add: order_simps)

lemma main_order_sas_defined:
  "triple (\<lambda>s. never is_data_plane_write (trace s)) (main v cfg w)
     (\<lambda>s. preceded is_sas_defined is_data_plane_write (trace s))
     (\<lambda>e s. preceded is_sas_defined is_data_plane_write (trace s))"
  unfolding sample_defs Let_def
  by (cases v; simp only: variant.case bnd_assoc;
      intro
        triple_bnd[where m="remote w (KvSetSasDefinition a b c d e f g)" and Q="\<lambda>s. reached is_sas_defined is_data_plane_write (trace s)" for a b c d e f g]
        triple_bnd[where m="remote w (StorageAccountsListAccountSAS a b c)" and Q="\<lambda>s. reached is_sas_defined is_data_plane_write (trace s)" for a b c]
        step_rules; simp add: order_simps)

section \<open>Running the sample\<close>

lemma tripleD_Inr: "triple P m Q E \<Longrightarrow> P s \<Longrightarrow> m s = (Inr x, s') \<Longrightarrow> Q s'"
  by (fastforce simp: triple_def)

lemma tripleD_Inl: "triple P m Q E \<Longrightarrow> P s \<Longrightarrow> m s = (Inl e, s') \<Longrightarrow> E e s'"
  by (fastforce simp: triple_def)

lemma load_config_cases:
  assumes "load_config v env w s = (r, s')"
  shows "(\<exists>e. r = Inl e \<and> s' = s \<and> validate_env v env = Inl e) \<or>
         (\<exists>cfg. r = Inr cfg \<and> s' = s\<lparr>drawn := Suc (drawn s)\<rparr> \<and> validate_env v env = Inr ())"
  using assms
  by (cases "validate_env v env")
     (auto simp: load_config_def bnd_def draw_random_id_def ret_def)

lemma run_sample_cases:
  assumes "run_sample v env w = (out, s)"
  obtains (uncaught) e where "out = UncaughtException e" "s = initial_state"
      "validate_env v env = Inl e"
  | (rejected) e cfg where "out = UnhandledRejection e"
      "main v cfg w (initial_state\<lparr>drawn := Suc 0\<rparr>) = (Inl e, s)"
  | (fulfilled) cfg s' where "out = Fulfilled"
      "main v cfg w (initial_state\<lparr>drawn := Suc 0\<rparr>) = (Inr (), s')"
      "s = s'\<lparr>trace := trace s' @ [Log completion_line]\<rparr>"
proof -
  obtain r s0 where l: "load_config v env w initial_state = (r, s0)"
    by (cases "load_config v env w initial_state")
  from load_config_cases[OF l] show ?thesis
  proof (elim disjE exE conjE)
    fix e assume a: "r = Inl e" "s0 = initial_state" "validate_env v env = Inl e"
    from assms l a have "out = UncaughtException e" "s = initial_state"
      by (auto simp: run_sample_def)
    then show ?thesis using a(3) by (rule uncaught)
  next
    fix cfg assume c: "r = Inr cfg" "s0 = initial_state\<lparr>drawn := Suc (drawn initial_state)\<rparr>"
    have d: "drawn initial_state = 0" by (simp add: initial_state_def)
    obtain r' s1 where m: "main v cfg w (initial_state\<lparr>drawn := Suc 0\<rparr>) = (r', s1)"
      by (cases "main v cfg w (initial_state\<lparr>drawn := Suc 0\<rparr>)")
    show ?thesis
    proof (cases r')
      case (Inl e)
      with assms l c d m have "out = UnhandledRejection e" "s = s1"
        by (auto simp: run_sample_def)
      with m Inl show ?thesis by (intro rejected[of e cfg]) simp_all
    next
      case (Inr u)
      with assms l c d m have "out = Fulfilled" "s = s1\<lparr>trace := trace s1 @ [Log completion_line]\<rparr>"
        by (auto simp: run_sample_def)
      with m Inr show ?thesis by (intro fulfilled[of cfg s1]) simp_all
    qed
  qed
qed

lemma start_facts [simp]:
  "trace (initial_state\<lparr>drawn := n\<rparr>) = []"
  "config_vault (initial_state\<lparr>drawn := n\<rparr>) = None"
  "config_userId (initial_state\<lparr>drawn := n\<rparr>) = None"
  "trace initial_state = []"
  by (simp_all add: initial_state_def)

lemma truthy_None [simp]: "\<not> truthy None"
  by (simp add: truthy_def)

lemma preceded_snoc:
  "preceded P Q tr \<Longrightarrow> \<not> Q ev \<Longrightarrow> preceded P Q (tr @ [ev])"
  by (induction tr) auto

lemma run_preceded:
  assumes run: "run_sample v env w = (out, s)"
      and t: "\<And>cfg. triple (\<lambda>s. never Q (trace s) \<and> config_vault s = None) (main v cfg w)
                (\<lambda>s. preceded P Q (trace s)) (\<lambda>e s. preceded P Q (trace s))"
      and nq: "\<not> Q (Log completion_line)"
  shows "preceded P Q (trace s)"
  using run
proof (cases rule: run_sample_cases)
  case (uncaught e)
  then show ?thesis by simp
next
  case (rejected e cfg)
  from tripleD_Inl[OF t _ rejected(2)] show ?thesis by simp
next
  case (fulfilled cfg s')
  from tripleD_Inr[OF t _ fulfilled(2)] have "preceded P Q (trace s')" by simp
  with fulfilled(3) nq show ?thesis by (simp add: preceded_snoc)
qed

lemma triple_weaken_pre:
  "triple P m Q E \<Longrightarrow> (\<And>s. P' s \<Longrightarrow> P s) \<Longrightarrow> triple P' m Q E"
  by (simp add: triple_def)

lemma run_fail_fast:
  assumes run: "run_sample v env w = (out, s)"
  shows "(out = Fulfilled \<longrightarrow> clean (trace s)) \<and>
         (\<forall>e. out = UnhandledRejection e \<longrightarrow> stopped e (trace s)) \<and>
         (\<forall>e. out = UncaughtException e \<longrightarrow> trace s = [])"
  using run
proof (cases rule: run_sample_cases)
  case (uncaught e)
  then show ?thesis by simp
next
  case (rejected e cfg)
  from tripleD_Inl[OF main_fail_fast _ rejected(2)] rejected(1) show ?thesis by simp
next
  case (fulfilled cfg s')
  from tripleD_Inr[OF main_fail_fast _ fulfilled(2)] have "clean (trace s')" by simp
  with fulfilled show ?thesis by simp
qed

lemma clean_no_rejection:
  "clean (pre @ Called c (Some e) # post) \<Longrightarrow> is_role_conflict c e"
  by simp

lemma rejected_call_is_last:
  assumes run: "run_sample v env w = (out, s)"
      and tr: "trace s = pre @ Called c (Some e) # post"
      and nc: "\<not> is_role_conflict c e"
  shows "post = [] \<and> out = UnhandledRejection e"
proof -
  note ff = run_fail_fast[OF run]
  have not_clean: "\<not> clean (trace s)"
    using tr nc by simp
  show ?thesis
  proof (cases out)
    case Fulfilled
    with ff not_clean show ?thesis by simp
  next
    case (UncaughtException e')
    with ff tr show ?thesis by simp
  next
    case (UnhandledRejection e')
    with ff not_clean have "ends_rejected e' (trace s)"
      by (simp add: stopped_def)
    then obtain pre' c' where l: "trace s = pre' @ [Called c' (Some e')]" and cl: "clean pre'"
      using ends_rejectedD by blast
    show ?thesis
    proof (cases post rule: rev_cases)
      case Nil
      with tr l UnhandledRejection show ?thesis by simp
    next
      case (snoc post' ev)
      with tr l have "pre' = pre @ Called c (Some e) # post'" by simp
      with cl nc show ?thesis by simp
    qed
  qed
qed

lemmas run_defs = run_sample_def load_config_def validate_env_def missing_envs_def truthy_def
  or_default_def bnd_def ret_def throw_def try_catch_def console_log_def remote_def
  draw_random_id_def draw_uuidv4_def Let_def initial_state_def sample_env_def sample_world_def
  rejecting_def main_def main_steps_def getSampleVault_def getManagementCredentials_def
  store_vault_def addStorageAccount_def addStorageAccount_track1_def
  addStorageAccount_track2_def updateStorageAccount_def regenerateStorageAccountKey_def
  getStorageAccounts_def createAccountSASDefinition_def createBlobSASDefinition_def
  getSASDefinitions_def deleteStorageAccount_def getUserCredentials_def
  tokenFromUserCredentials_def first_role_id_def grantRole_def accessPolicies_push_def
  deref_def principal_of_def parse_secret_id_def sample_vault_def sample_account_def
  conflict_error_def forbidden_error_def

section \<open>The environment check\<close>

lemma util_format_message:
  "util_format ''please set/export the following environment variables: %s'' x =
     ''please set/export the following environment variables: '' @ x"
  by simp

lemma sublist_array_toString: "k \<in> set ks \<Longrightarrow> sublist k (array_toString ks)"
proof (induction ks rule: array_toString.induct)
  case 1
  then show ?case by simp
next
  case (2 x)
  then show ?case by simp
next
  case (3 x y ys)
  show ?case
  proof (cases "k = x")
    case True
    then show ?thesis by simp
  next
    case False
    with 3 have "sublist k (array_toString (y # ys))" by simp
    then have "sublist k ((x @ '','') @ array_toString (y # ys))"
      by (rule sublist_order.order.trans) (rule sublist_append_leftI)
    then show ?thesis by simp
  qed
qed

lemma validate_env_ok: "validate_env v env = Inr () \<longleftrightarrow> missing_envs env = []"
  by (simp add: validate_env_def Let_def)

lemma missing_envs_complete:
  assumes "k \<in> {''AZURE_SUBSCRIPTION_ID'', ''AZURE_TENANT_ID'', ''AZURE_CLIENT_ID'',
                ''AZURE_CLIENT_OID'', ''AZURE_CLIENT_SECRET''}"
      and "\<not> truthy (env k)"
  shows "k \<in> set (missing_envs env)"
  using assms by (auto simp: missing_envs_def)

lemma missing_config_is_uncaught:
  assumes "missing_envs env \<noteq> []"
  shows "\<exists>e. run_sample v env w = (UncaughtException e, initial_state)"
  using assms
  by (cases "validate_env v env")
     (auto simp: run_sample_def load_config_def bnd_def validate_env_ok)

lemma track2_lists_every_missing_name:
  assumes "missing_envs env \<noteq> []"
  shows "\<exists>msg. run_sample Track2 env w = (UncaughtException (JsError ''Error'' None msg), initial_state)
           \<and> (\<forall>k\<in>set (missing_envs env). sublist k msg)"
proof -
  let ?msg = "''please set/export the following environment variables: '' @
                array_toString (missing_envs env)"
  have "validate_env Track2 env = Inl (JsError ''Error'' None ?msg)"
    using assms
    by (simp add: validate_env_def Let_def module_requires_def util_format_message
          del: util_format.simps)
  then have "run_sample Track2 env w = (UncaughtException (JsError ''Error'' None ?msg), initial_state)"
    by (simp add: run_sample_def load_config_def bnd_def)
  moreover have "\<forall>k\<in>set (missing_envs env). sublist k ?msg"
  proof
    fix k assume "k \<in> set (missing_envs env)"
    then have "sublist k (array_toString (missing_envs env))"
      by (rule sublist_array_toString)
    then show "sublist k ?msg"
      by (rule sublist_order.order.trans) (rule sublist_append_leftI)
  qed
  ultimately show ?thesis by blast
qed

section \<open>The sample vault\<close>

lemma new_events_same [simp]: "new_events s s = []"
  by (simp add: new_events_def)

lemma getSampleVault_cached:
  "config_vault s = Some r \<Longrightarrow> getSampleVault v cfg w s = (Inr r, s)"
  by (simp add: getSampleVault_def)

lemmas vault_defs = getSampleVault_def getManagementCredentials_def bnd_def remote_def ret_def
  store_vault_def draw_random_id_def console_log_def Let_def new_events_def

lemma main_steps_keep_cache:
  "triple (\<lambda>s. config_vault s = Some r) (main_steps v cfg w vault)
     (\<lambda>s. config_vault s = Some r) (\<lambda>e s. config_vault s = Some r)"
  unfolding sample_defs Let_def
  by (cases v; simp only: variant.case bnd_assoc; intro step_rules; simp)

section \<open>What the process prints\<close>

lemma printed_append [simp]: "printed (xs @ ys) = printed xs @ printed ys"
  by (induction xs rule: printed.induct) auto


section \<open>The access policies of the vault\<close>

lemma untouched_simps [simp]:
  "untouched h0 tr0 (s\<lparr>drawn := d\<rparr>) = untouched h0 tr0 s"
  "untouched h0 tr0 (s\<lparr>config_userId := u\<rparr>) = untouched h0 tr0 s"
  by (simp_all add: untouched_def)

lemma untouched_append [simp]:
  "untouched h0 tr0 s \<Longrightarrow> untouched h0 tr0 (s\<lparr>trace := trace s @ ys\<rparr>)"
  by (simp add: untouched_def)

lemma untouched_append_user [simp]:
  "untouched h0 tr0 s \<Longrightarrow> untouched h0 tr0 (s\<lparr>trace := trace s @ ys, config_userId := u\<rparr>)"
  by (simp add: untouched_def)

lemma pushed_append [simp]:
  assumes "pushed cfg r h0 tr0 s"
  shows "pushed cfg r h0 tr0 (s\<lparr>trace := trace s @ ys\<rparr>)"
proof -
  from assms obtain entry res where
    h: "heap s = h0(r := push_policy entry (h0 r))" and p: "prefix tr0 (trace s)" and
    c: "Called (VaultsCreateOrUpdate (groupName cfg) (vault_name (h0 r))
                  (Whole (push_policy entry (h0 r)))) res \<in> set (drop (length tr0) (trace s))"
    by (auto simp: pushed_def)
  from p have "length tr0 \<le> length (trace s)" by (rule prefix_length_le)
  with c have "Called (VaultsCreateOrUpdate (groupName cfg) (vault_name (h0 r))
                  (Whole (push_policy entry (h0 r)))) res
                 \<in> set (drop (length tr0) (trace s @ ys))"
    by simp
  with h p show ?thesis
    unfolding pushed_def by (intro exI[of _ entry] exI[of _ res]) simp
qed

lemma pushed_intro [simp]:
  assumes "untouched h0 tr0 s"
  shows "pushed cfg r h0 tr0
           (s\<lparr>heap := (heap s)(r := push_policy entry (heap s r)),
              trace := trace s @ [Called (VaultsCreateOrUpdate (groupName cfg) (vault_name (heap s r))
                                            (Whole (push_policy entry (heap s r)))) res]\<rparr>)"
proof -
  from assms have h: "heap s = h0" and p: "prefix tr0 (trace s)"
    by (simp_all add: untouched_def)
  from p have "length tr0 \<le> length (trace s)" by (rule prefix_length_le)
  with h p show ?thesis
    unfolding pushed_def by (intro exI[of _ entry] exI[of _ res]) simp
qed

lemma main_steps_policies:
  "triple (untouched h0 tr0) (main_steps v cfg w r)
     (\<lambda>s. untouched h0 tr0 s \<or> pushed cfg r h0 tr0 s)
     (\<lambda>e s. untouched h0 tr0 s \<or> pushed cfg r h0 tr0 s)"
  unfolding sample_defs Let_def
  by (cases v; simp only: variant.case bnd_assoc;
      intro triple_push_update[where Q="pushed cfg r h0 tr0"] step_rules; simp)

section \<open>The claims\<close>

subsection \<open>C1\<close>

text \<open>
  C1.  In the role-grant step, a \<^verbatim>\<open>roleAssignments.create\<close> call rejected with the code
  \<^verbatim>\<open>RoleAssignmentExists\<close> counts as success: the \<^verbatim>\<open>try\<close>/\<^verbatim>\<open>catch\<close> statement completes
  without throwing, only the rejected call has been recorded, and whatever statement follows
  it (\<open>k\<close>) runs next.  Rejected with any other code, the statement throws that error and
  what follows does not run; in a run of the sample such a rejection is the last event and
  the run ends rejected with that error.
\<close>

theorem C1_role_conflict_is_success:
  assumes "failure w (length (trace s)) (RoleAssignmentsCreate scope nm ps) = Some e"
  shows "(err_code e = Some ''RoleAssignmentExists'' \<longrightarrow>
            grantRole w scope nm ps s =
              (Inr (), s\<lparr>trace := trace s @ [Called (RoleAssignmentsCreate scope nm ps) (Some e)]\<rparr>) \<and>
            bnd (grantRole w scope nm ps) k s =
              k () (s\<lparr>trace := trace s @ [Called (RoleAssignmentsCreate scope nm ps) (Some e)]\<rparr>)) \<and>
         (err_code e \<noteq> Some ''RoleAssignmentExists'' \<longrightarrow>
            bnd (grantRole w scope nm ps) k s =
              (Inl e, s\<lparr>trace := trace s @ [Called (RoleAssignmentsCreate scope nm ps) (Some e)]\<rparr>)) \<and>
         (\<forall>v env w' out s' pre a b c e' post.
            run_sample v env w' = (out, s') \<and>
            trace s' = pre @ Called (RoleAssignmentsCreate a b c) (Some e') # post \<and>
            err_code e' \<noteq> Some ''RoleAssignmentExists'' \<longrightarrow>
            post = [] \<and> out = UnhandledRejection e')"
proof (intro conjI impI allI)
  assume "err_code e = Some ''RoleAssignmentExists''"
  with assms show
    "grantRole w scope nm ps s =
       (Inr (), s\<lparr>trace := trace s @ [Called (RoleAssignmentsCreate scope nm ps) (Some e)]\<rparr>)"
    by (simp add: grantRole_def try_catch_def bnd_def remote_def Let_def ret_def)
  then show "bnd (grantRole w scope nm ps) k s =
       k () (s\<lparr>trace := trace s @ [Called (RoleAssignmentsCreate scope nm ps) (Some e)]\<rparr>)"
    by (simp add: bnd_def)
next
  assume "err_code e \<noteq> Some ''RoleAssignmentExists''"
  with assms show "bnd (grantRole w scope nm ps) k s =
       (Inl e, s\<lparr>trace := trace s @ [Called (RoleAssignmentsCreate scope nm ps) (Some e)]\<rparr>)"
    by (simp add: grantRole_def try_catch_def bnd_def remote_def Let_def throw_def)
next
  fix v env w' out s' pre a b c e' post
  assume a: "run_sample v env w' = (out, s') \<and>
            trace s' = pre @ Called (RoleAssignmentsCreate a b c) (Some e') # post \<and>
            err_code e' \<noteq> Some ''RoleAssignmentExists''"
  then have "\<not> is_role_conflict (RoleAssignmentsCreate a b c) e'"
    by (simp add: is_role_conflict_def)
  with a rejected_call_is_last[of v env w' out s' pre "RoleAssignmentsCreate a b c" e' post]
  show "post = []" "out = UnhandledRejection e'"
    by simp_all
qed

theorem C1_role_conflict_is_success_witness:
  "failure (rejecting is_role_assignment_create conflict_error) (length (trace initial_state))
      (RoleAssignmentsCreate ''/subscriptions/sub-1/said'' ''uuid'' (RoleAssignmentParams ''role-1'' ''p'')) =
     Some conflict_error \<and>
   err_code conflict_error = Some ''RoleAssignmentExists'' \<and>
   fst (grantRole (rejecting is_role_assignment_create conflict_error) ''/subscriptions/sub-1/said''
          ''uuid'' (RoleAssignmentParams ''role-1'' ''p'') initial_state) = Inr ()"
  using C1_role_conflict_is_success[of "rejecting is_role_assignment_create conflict_error"
      initial_state "''/subscriptions/sub-1/said''" "''uuid''" "RoleAssignmentParams ''role-1'' ''p''"
      conflict_error ret]
  by (simp add: rejecting_def sample_world_def conflict_error_def initial_state_def)

subsection \<open>C2\<close>

text \<open>
  C2.  With the tenant id missing, the older utility module does fail before any remote
  call, but not with the error it builds: \<^verbatim>\<open>util\<close> is never required there, so evaluating
  \<^verbatim>\<open>util.format\<close> throws a \<^verbatim>\<open>ReferenceError\<close> whose message names no variable.  The newer
  module, on the same environment, throws the error that names the missing variable.
\<close>

theorem C2_track1_names_no_missing_variable:
  "missing_envs env_without_tenant = [''AZURE_TENANT_ID''] \<and>
   run_sample Track1 env_without_tenant w =
     (UncaughtException (JsError ''ReferenceError'' None ''util is not defined''), initial_state) \<and>
   trace initial_state = [] \<and>
   \<not> sublist ''AZURE_TENANT_ID'' ''util is not defined'' \<and>
   run_sample Track2 env_without_tenant w =
     (UncaughtException (JsError ''Error'' None
        ''please set/export the following environment variables: AZURE_TENANT_ID''), initial_state)"
proof -
  have m: "missing_envs env_without_tenant = [''AZURE_TENANT_ID'']"
    by (simp add: missing_envs_def env_without_tenant_def truthy_def)
  have "validate_env Track1 env_without_tenant =
          Inl (JsError ''ReferenceError'' None ''util is not defined'')"
    by (simp add: validate_env_def Let_def m module_requires_def)
  then have r: "run_sample Track1 env_without_tenant w =
     (UncaughtException (JsError ''ReferenceError'' None ''util is not defined''), initial_state)"
    by (simp add: run_sample_def load_config_def bnd_def)
  have "\<not> set ''AZURE_TENANT_ID'' \<subseteq> set ''util is not defined''"
    by simp
  then have ns: "\<not> sublist ''AZURE_TENANT_ID'' ''util is not defined''"
    using set_mono_sublist by blast
  have "validate_env Track2 env_without_tenant =
          Inl (JsError ''Error'' None
                 ''please set/export the following environment variables: AZURE_TENANT_ID'')"
    by (simp add: validate_env_def Let_def m module_requires_def)
  then have r2: "run_sample Track2 env_without_tenant w =
     (UncaughtException (JsError ''Error'' None
        ''please set/export the following environment variables: AZURE_TENANT_ID''), initial_state)"
    by (simp add: run_sample_def load_config_def bnd_def)
  from m r r2 ns show ?thesis by simp
qed

subsection \<open>C3\<close>

text \<open>
  C3.  In every run the order of the steps is fixed.  Every storage-account creation is
  preceded by a completed vault acquisition, every key-management call by a completed role
  assignment, and every data-plane write by a SAS that has been defined and whose token has
  been issued.
\<close>

theorem C3_step_order:
  assumes "run_sample v env w = (out, s)" and "i < length (trace s)"
  shows "(is_account_creation (trace s ! i) \<longrightarrow> (\<exists>j<i. is_vault_acquired (trace s ! j))) \<and>
         (is_key_management (trace s ! i) \<longrightarrow> (\<exists>j<i. is_role_assigned (trace s ! j))) \<and>
         (is_data_plane_write (trace s ! i) \<longrightarrow>
            (\<exists>j<i. is_sas_defined (trace s ! j)) \<and> (\<exists>j<i. is_sas_issued (trace s ! j)))"
proof -
  have a: "preceded is_vault_acquired is_account_creation (trace s)"
    by (rule run_preceded[OF assms(1)]) (rule main_order_vault, simp)
  have b: "preceded is_role_assigned is_key_management (trace s)"
    by (rule run_preceded[OF assms(1)])
       (rule triple_weaken_pre[OF main_order_role], simp_all)
  have c: "preceded is_sas_defined is_data_plane_write (trace s)"
    by (rule run_preceded[OF assms(1)])
       (rule triple_weaken_pre[OF main_order_sas_defined], simp_all)
  have d: "preceded is_sas_issued is_data_plane_write (trace s)"
    by (rule run_preceded[OF assms(1)])
       (rule triple_weaken_pre[OF main_order_sas_issued], simp_all)
  show ?thesis
    using preceded_nth[OF a assms(2)] preceded_nth[OF b assms(2)]
      preceded_nth[OF c assms(2)] preceded_nth[OF d assms(2)]
    by blast
qed

theorem C3_step_order_witness:
  "5 < length (trace (snd (run_sample Track2 sample_env
                            (rejecting is_role_assignment_create forbidden_error)))) \<and>
   is_account_creation (trace (snd (run_sample Track2 sample_env
                            (rejecting is_role_assignment_create forbidden_error))) ! 5) \<and>
   (\<exists>j<5. is_vault_acquired (trace (snd (run_sample Track2 sample_env
                            (rejecting is_role_assignment_create forbidden_error))) ! j))"
proof -
  let ?r = "run_sample Track2 sample_env (rejecting is_role_assignment_create forbidden_error)"
  have eq: "?r = (fst ?r, snd ?r)" by simp
  have len: "length (trace (snd ?r)) = 8"
    by (simp add: run_defs)
  have ev: "trace (snd ?r) ! 5 =
      Called (StorageAccountsCreate ''azure-sample-group'' ''said''
                (CreateParams ''westus'' ''Standard_RAGRS'' ''StorageV2'' (Some ''SystemAssigned''))) None"
    by (simp add: run_defs)
  from C3_step_order[OF eq, of 5] len ev show ?thesis by simp
qed

subsection \<open>C4\<close>



subsection \<open>C5\<close>

text \<open>
  C5.  With a vault name configured, vault acquisition calls nothing but the lookup of
  that vault (after, in the older module, the service-principal login): it never calls the
  vault creation and never the resource-group creation.
\<close>

theorem C5_configured_vault_is_only_looked_up:
  assumes "truthy (vaultName cfg)" and "getSampleVault v cfg w s = (r, s')"
  shows "(\<forall>c\<in>set (calls_of (new_events s s')).
            c = VaultsGet (groupName cfg) (the (vaultName cfg)) \<or>
            (v = Track1 \<and>
             c = LoginWithServicePrincipalSecret (clientId cfg) (secret cfg) (tenantId cfg))) \<and>
         \<not> list_ex is_vault_create (calls_of (new_events s s')) \<and>
         \<not> list_ex is_resource_group_call (calls_of (new_events s s'))"
proof (cases "config_vault s")
  case (Some a)
  with assms(2) show ?thesis by (auto simp: getSampleVault_def)
next
  case None
  with assms show ?thesis
    by (cases v) (auto simp: vault_defs split: option.splits)
qed

theorem C5_configured_vault_is_only_looked_up_witness:
  "truthy (vaultName named_config) \<and>
   calls_of (new_events initial_state (snd (getSampleVault Track1 named_config sample_world initial_state))) =
     [LoginWithServicePrincipalSecret ''client-1'' ''s3cret'' ''tenant-1'',
      VaultsGet ''azure-sample-group'' ''kv1''] \<and>
   \<not> list_ex is_vault_create
       (calls_of (new_events initial_state (snd (getSampleVault Track1 named_config sample_world initial_state))))"
proof -
  let ?r = "getSampleVault Track1 named_config sample_world initial_state"
  have eq: "?r = (fst ?r, snd ?r)" by simp
  have t: "truthy (vaultName named_config)"
    by (simp add: named_config_def sample_config_def truthy_def)
  have c: "calls_of (new_events initial_state (snd ?r)) =
     [LoginWithServicePrincipalSecret ''client-1'' ''s3cret'' ''tenant-1'',
      VaultsGet ''azure-sample-group'' ''kv1'']"
    by (simp add: vault_defs named_config_def sample_config_def truthy_def sample_world_def
          initial_state_def new_events_def)
  from C5_configured_vault_is_only_looked_up[OF t eq] t c show ?thesis by simp
qed

subsection \<open>C6\<close>

text \<open>
  C6, as the claim states it, fails: with no vault name configured and the resource-group
  call rejected, vault acquisition never reaches the vault creation.
\<close>

theorem C6_creation_skipped_counterexample:
  "\<not> truthy (vaultName sample_config) \<and>
   length (filter is_vault_create
     (calls_of (trace (snd (getSampleVault Track2 sample_config
        (rejecting is_resource_group_call forbidden_error) initial_state))))) = 0"
  by (simp add: vault_defs sample_config_def truthy_def rejecting_def sample_world_def
        initial_state_def)

text \<open>
  C6, amended.  With no vault name configured and no vault cached, vault acquisition calls
  the vault creation exactly when the resource-group call before it has succeeded, then once,
  with the creation parameters and the name just drawn from the random-id generator; it
  calls it not at all when an earlier call is rejected.  Whenever the acquisition returns a
  vault, the creation has been called exactly once and one identifier has been drawn.
\<close>

theorem C6_vault_created_once_with_fresh_name:
  assumes "\<not> truthy (vaultName cfg)" and "config_vault s = None"
      and "getSampleVault v cfg w s = (r, s')"
  shows "filter is_vault_create (calls_of (new_events s s')) =
           (if Called (ResourceGroupsCreateOrUpdate (groupName cfg) (azureLocation cfg)) None
                 \<in> set (new_events s s')
            then [VaultsCreateOrUpdate (groupName cfg) (random_id w (drawn s)) (Params (kvParams v cfg))]
            else []) \<and>
         ((\<exists>x. r = Inr x) \<longrightarrow>
            filter is_vault_create (calls_of (new_events s s')) =
              [VaultsCreateOrUpdate (groupName cfg) (random_id w (drawn s)) (Params (kvParams v cfg))] \<and>
            drawn s' = Suc (drawn s))"
  using assms
  by (cases v) (auto simp: vault_defs split: option.splits)

theorem C6_vault_created_once_with_fresh_name_witness:
  "\<not> truthy (vaultName sample_config) \<and> config_vault initial_state = None \<and>
   filter is_vault_create
     (calls_of (new_events initial_state (snd (getSampleVault Track2 sample_config sample_world initial_state)))) =
     [VaultsCreateOrUpdate ''azure-sample-group'' (random_id sample_world 0)
        (Params (kvParams Track2 sample_config))]"
proof -
  let ?r = "getSampleVault Track2 sample_config sample_world initial_state"
  have eq: "?r = (fst ?r, snd ?r)" by simp
  have t: "\<not> truthy (vaultName sample_config)"
    by (simp add: sample_config_def truthy_def)
  have c: "config_vault initial_state = None"
    by (simp add: initial_state_def)
  have ok: "\<exists>x. fst ?r = Inr x"
    by (simp add: vault_defs sample_config_def truthy_def sample_world_def initial_state_def)
  have g: "groupName sample_config = ''azure-sample-group''" "drawn initial_state = 0"
    by (simp_all add: sample_config_def initial_state_def)
  from C6_vault_created_once_with_fresh_name[OF t c eq, THEN conjunct2] ok
  have "filter is_vault_create (calls_of (new_events initial_state (snd ?r))) =
          [VaultsCreateOrUpdate (groupName sample_config) (random_id sample_world (drawn initial_state))
             (Params (kvParams Track2 sample_config))]"
    by blast
  with t c g show ?thesis by simp
qed

subsection \<open>C7\<close>




subsection \<open>C8\<close>

text \<open>
  C8.  Over the steps of the sample, the vault objects in memory change in one way only: at
  most one entry is appended to the access-policy list of the sample's vault, and when it is,
  the whole updated vault has then been passed to \<^verbatim>\<open>vaults.createOrUpdate\<close>.  So the entries
  the list had are kept, in order, its length does not decrease, and no other vault object
  changes.
\<close>

theorem C8_access_policies_only_grow:
  assumes "main_steps v cfg w r s = (res, s')"
  shows "(heap s' = heap s \<or>
          (\<exists>entry result.
             heap s' = (heap s)(r := push_policy entry (heap s r)) \<and>
             Called (VaultsCreateOrUpdate (groupName cfg) (vault_name (heap s r))
                       (Whole (push_policy entry (heap s r)))) result
               \<in> set (new_events s s'))) \<and>
         prefix (accessPolicies (properties (heap s r))) (accessPolicies (properties (heap s' r))) \<and>
         length (accessPolicies (properties (heap s r)))
           \<le> length (accessPolicies (properties (heap s' r))) \<and>
         (\<forall>a. a \<noteq> r \<longrightarrow> heap s' a = heap s a)"
proof -
  have start: "untouched (heap s) (trace s) s"
    by (simp add: untouched_def)
  have fin: "untouched (heap s) (trace s) s' \<or> pushed cfg r (heap s) (trace s) s'"
  proof (cases res)
    case (Inl e)
    with assms tripleD_Inl[OF main_steps_policies start] show ?thesis by blast
  next
    case (Inr u)
    with assms tripleD_Inr[OF main_steps_policies start] show ?thesis by blast
  qed
  then have first: "heap s' = heap s \<or>
          (\<exists>entry result.
             heap s' = (heap s)(r := push_policy entry (heap s r)) \<and>
             Called (VaultsCreateOrUpdate (groupName cfg) (vault_name (heap s r))
                       (Whole (push_policy entry (heap s r)))) result
               \<in> set (new_events s s'))"
    by (auto simp: untouched_def pushed_def new_events_def)
  then show ?thesis
    by (auto simp: push_policy_def)
qed

theorem C8_access_policies_only_grow_witness:
  "length (accessPolicies (properties (heap (snd (main_steps Track2 sample_config
       (rejecting is_role_assignment_create conflict_error) 0
       (initial_state\<lparr>heap := (heap initial_state)(0 := sample_vault)\<rparr>))) 0))) = 1 \<and>
   prefix (accessPolicies (properties sample_vault))
     (accessPolicies (properties (heap (snd (main_steps Track2 sample_config
       (rejecting is_role_assignment_create conflict_error) 0
       (initial_state\<lparr>heap := (heap initial_state)(0 := sample_vault)\<rparr>))) 0)))"
proof -
  let ?s = "initial_state\<lparr>heap := (heap initial_state)(0 := sample_vault)\<rparr>"
  let ?r = "main_steps Track2 sample_config (rejecting is_role_assignment_create conflict_error) 0 ?s"
  have eq: "?r = (fst ?r, snd ?r)" by simp
  have l: "length (accessPolicies (properties (heap (snd ?r) 0))) = 1"
    by (simp add: run_defs sample_config_def push_policy_def keyvault_encryption_def)
  from C8_access_policies_only_grow[OF eq] l show ?thesis by simp
qed

subsection \<open>C9\<close>

text \<open>
  C9.  The teardown issues exactly one call: the older sample removes the storage account
  from the vault's managed accounts, the newer one sets the account's encryption key source
  back to \<^verbatim>\<open>Microsoft.Storage\<close>.  No vault-management call and no deletion of the storage
  account is issued, and the in-memory vault objects and the cached vault reference are
  left as they were.
\<close>

theorem C9_teardown_only_detaches_the_account:
  assumes "deleteStorageAccount v cfg w vault storageAccount s = (r, s')"
  shows "calls_of (new_events s s') =
           [case v of
              Track1 \<Rightarrow> KvDeleteStorageAccount (vaultUri (properties (heap s vault)))
                          (sa_name storageAccount)
            | Track2 \<Rightarrow> StorageAccountsUpdate (groupName cfg) (sa_name storageAccount)
                          (Encryption ''Microsoft.Storage'' None None)] \<and>
         heap s' = heap s \<and> config_vault s' = config_vault s \<and> next_ref s' = next_ref s"
  using assms
  by (cases v)
     (auto simp: deleteStorageAccount_def bnd_def deref_def remote_def console_log_def Let_def
        new_events_def split: option.splits)

theorem C9_teardown_only_detaches_the_account_witness:
  "calls_of (new_events initial_state
      (snd (deleteStorageAccount Track1 sample_config sample_world 0 sample_account
              (initial_state\<lparr>heap := (heap initial_state)(0 := sample_vault)\<rparr>)))) =
     [KvDeleteStorageAccount ''https://kv1.vault.azure.net'' ''said''] \<and>
   heap (snd (deleteStorageAccount Track1 sample_config sample_world 0 sample_account
              (initial_state\<lparr>heap := (heap initial_state)(0 := sample_vault)\<rparr>))) 0 = sample_vault"
proof -
  let ?s = "initial_state\<lparr>heap := (heap initial_state)(0 := sample_vault)\<rparr>"
  let ?r = "deleteStorageAccount Track1 sample_config sample_world 0 sample_account ?s"
  have eq: "?r = (fst ?r, snd ?r)" by simp
  have n: "new_events initial_state (snd ?r) = new_events ?s (snd ?r)"
    by (simp add: new_events_def)
  from C9_teardown_only_detaches_the_account[OF eq] n show ?thesis
    by (simp add: sample_vault_def sample_account_def)
qed

subsection \<open>C10\<close>

text \<open>
  C10.  Once vault acquisition has returned a vault, the reference is cached: any later
  acquisition, whatever its arguments, returns the same reference and leaves the state as it
  is (no event is added, so no lookup or creation is called), also after the steps of the
  sample have run, none of which changes the cached reference.
\<close>

theorem C10_vault_acquisition_is_cached:
  assumes "getSampleVault v cfg w s = (Inr r, s1)"
  shows "config_vault s1 = Some r \<and>
         getSampleVault v' cfg' w' s1 = (Inr r, s1) \<and>
         new_events s1 (snd (getSampleVault v' cfg' w' s1)) = [] \<and>
         (\<forall>res s2. main_steps v' cfg' w' r s1 = (res, s2) \<longrightarrow>
            config_vault s2 = Some r \<and> getSampleVault v'' cfg'' w'' s2 = (Inr r, s2))"
proof -
  have c: "config_vault s1 = Some r"
  proof (cases "config_vault s")
    case (Some a)
    with assms show ?thesis by (auto simp: getSampleVault_def)
  next
    case None
    with assms show ?thesis
      by (cases v) (auto simp: vault_defs split: option.splits if_splits)
  qed
  have again: "getSampleVault v' cfg' w' s1 = (Inr r, s1)"
    using c by (rule getSampleVault_cached)
  have later: "config_vault s2 = Some r \<and> getSampleVault v'' cfg'' w'' s2 = (Inr r, s2)"
    if run: "main_steps v' cfg' w' r s1 = (res, s2)" for res s2
  proof -
    have "config_vault s2 = Some r"
    proof (cases res)
      case (Inl e)
      with run tripleD_Inl[OF main_steps_keep_cache c] show ?thesis by blast
    next
      case (Inr u)
      with run tripleD_Inr[OF main_steps_keep_cache c] show ?thesis by blast
    qed
    then show ?thesis by (simp add: getSampleVault_cached)
  qed
  from c again later show ?thesis by simp
qed

theorem C10_vault_acquisition_is_cached_witness:
  "fst (getSampleVault Track2 named_config sample_world initial_state) = Inr 0 \<and>
   getSampleVault Track1 sample_config (rejecting is_resource_group_call forbidden_error)
      (snd (getSampleVault Track2 named_config sample_world initial_state)) =
     (Inr 0, snd (getSampleVault Track2 named_config sample_world initial_state))"
proof -
  let ?r = "getSampleVault Track2 named_config sample_world initial_state"
  have f: "fst ?r = Inr 0"
    by (simp add: vault_defs named_config_def sample_config_def truthy_def sample_world_def
          initial_state_def)
  then have eq: "?r = (Inr 0, snd ?r)"
    by (metis prod.collapse)
  from C10_vault_acquisition_is_cached[OF eq] f show ?thesis by simp
qed

end
